theory Spec2Isabelle
  imports Complex_Main "HOL-Library.AList" "HOL-Library.Log_Nat"
begin

section \<open>MentorConnect: the in-memory storage layer and its callers\<close>

text \<open>
  The development embeds \<^verbatim>\<open>MemStorage\<close> (server/storage.ts), the entity types of
  shared/schema.ts and the two route handlers of server/routes.ts that combine storage
  calls (registration and dashboard statistics).

  Conventions of the embedding:
  \<^item> every method takes the storage and returns its result together with the storage
    it leaves behind; methods that only read return the result alone;
  \<^item> the two effects the methods use, \<^verbatim>\<open>randomUUID()\<close> and \<^verbatim>\<open>new Date()\<close>, are
    inputs: the identifier that was drawn and the clock reading (milliseconds);
  \<^item> \<^verbatim>\<open>T | null\<close> is \<open>T option\<close> with \<open>None\<close> for \<^verbatim>\<open>null\<close>; a method result
    \<^verbatim>\<open>T | undefined\<close> is \<open>T option\<close> with \<open>None\<close> for \<^verbatim>\<open>undefined\<close>;
  \<^item> the \<^verbatim>\<open>async\<close> methods contain no \<^verbatim>\<open>await\<close>, so each body runs to completion
    and is a function;
  \<^item> inputs have the shape their TypeScript types give them: the handlers validate the
    body of a creation with the insert schema before they call the storage, and the
    patch of an update is a \<^verbatim>\<open>Partial\<close> of the entity, as the signature says;
  \<^item> the properties are stated for every storage, so the entries with which the
    constructor seeds the three collections are not part of the embedding.
\<close>

subsection \<open>The JavaScript \<^verbatim>\<open>Map\<close>\<close>

text \<open>
  A \<^verbatim>\<open>Map\<close> iterates in insertion order: \<^verbatim>\<open>set\<close> on a key that is present
  replaces the value where it stands, \<^verbatim>\<open>set\<close> on a new key appends, \<^verbatim>\<open>delete\<close>
  removes the entry and tells whether there was one. It is modelled as the list of its
  entries in iteration order.
\<close>

type_synonym ('k, 'v) js_map = "('k \<times> 'v) list"

definition map_get :: "('k, 'v) js_map \<Rightarrow> 'k \<Rightarrow> 'v option" where
  "map_get m k = map_of m k"

definition map_set :: "('k, 'v) js_map \<Rightarrow> 'k \<Rightarrow> 'v \<Rightarrow> ('k, 'v) js_map" where
  "map_set m k v = AList.update k v m"

definition map_delete :: "('k, 'v) js_map \<Rightarrow> 'k \<Rightarrow> bool \<times> ('k, 'v) js_map" where
  "map_delete m k = (map_of m k \<noteq> None, AList.delete k m)"

definition map_values :: "('k, 'v) js_map \<Rightarrow> 'v list" where
  "map_values m = map snd m"

text \<open>The keys of a \<^verbatim>\<open>Map\<close> are pairwise different.\<close>

definition map_ok :: "('k, 'v) js_map \<Rightarrow> bool" where
  "map_ok m = distinct (map fst m)"

subsection \<open>Input fields and JavaScript truthiness\<close>

text \<open>
  A field of an insert type that the schema makes optional and nullable has three
  states: the key is missing (\<^verbatim>\<open>undefined\<close>), it is \<^verbatim>\<open>null\<close>, or it has a value.
\<close>

datatype 'a field = Absent | Null | Present 'a

text \<open>
  \<^verbatim>\<open>x || null\<close>: the value when it is truthy, else \<^verbatim>\<open>null\<close>. The empty string and
  the number 0 are falsy.
\<close>

fun str_or_null :: "string field \<Rightarrow> string option" where
  "str_or_null (Present s) = (if s = [] then None else Some s)"
| "str_or_null _ = None"

fun int_or_null :: "int field \<Rightarrow> int option" where
  "int_or_null (Present n) = (if n = 0 then None else Some n)"
| "int_or_null _ = None"

text \<open>\<^verbatim>\<open>x || d\<close> for a field that is a string or missing.\<close>

fun str_or_default :: "string option \<Rightarrow> string \<Rightarrow> string" where
  "str_or_default (Some s) d = (if s = [] then d else s)"
| "str_or_default None d = d"

text \<open>\<^verbatim>\<open>xs ? [...xs] : null\<close>: every array is truthy, also the empty one.\<close>

fun copy_or_null :: "'a list field \<Rightarrow> 'a list option" where
  "copy_or_null (Present xs) = Some xs"
| "copy_or_null _ = None"

text \<open>
  A key of a \<^verbatim>\<open>Partial<T>\<close> is either missing or carries a value; the object spread
  \<^verbatim>\<open>{...old, ...patch}\<close> takes the patch's value for every key the patch has.
\<close>

fun spread :: "'a \<Rightarrow> 'a option \<Rightarrow> 'a" where
  "spread old None = old"
| "spread old (Some new) = new"

subsection \<open>JavaScript numbers\<close>

text \<open>
  A JavaScript number is an IEEE 754 double. The dashboard handler divides and adds
  numbers, so both operations are modelled with their rounding: a number is the rational
  it denotes, and the result of an operation is the exact result rounded to the nearest
  double, ties to the even significand. The exponent range of doubles is not modelled
  (no overflow to infinity, no subnormal numbers): the values that occur are quotients
  of integers by 60 and their sums. A duration is an integer that the schema has
  validated; it is a double as it stands.
\<close>

type_synonym number = rat

text \<open>\<open>expo x\<close> is the binary exponent of \<open>x \<noteq> 0\<close>: \<open>2 powi expo x \<le> \<bar>x\<bar> < 2 powi (expo x + 1)\<close>.\<close>

definition expo :: "rat \<Rightarrow> int" where
  "expo x = (let (a, b) = quotient_of \<bar>x\<bar>;
                 e0 = bitlen a - bitlen b
             in if 2 powi e0 \<le> \<bar>x\<bar> then e0 else e0 - 1)"

definition round_half_even :: "rat \<Rightarrow> int" where
  "round_half_even x =
     (let f = \<lfloor>x\<rfloor>; d = x - of_int f
      in if d < 1 / 2 then f else if 1 / 2 < d then f + 1 else if even f then f else f + 1)"

text \<open>Rounding to a significand of 53 bits.\<close>

definition to_double :: "rat \<Rightarrow> number" where
  "to_double x =
     (if x = 0 then 0
      else let q = 2 powi (expo x - 52) in of_int (round_half_even (x / q)) * q)"

definition num_add :: "number \<Rightarrow> number \<Rightarrow> number" where
  "num_add a b = to_double (a + b)"

definition num_div :: "number \<Rightarrow> number \<Rightarrow> number" where
  "num_div a b = to_double (a / b)"

text \<open>\<^verbatim>\<open>Math.round\<close>: the nearest integer, a tie going up.\<close>

definition Math_round :: "number \<Rightarrow> int" where
  "Math_round x = \<lfloor>x + 1 / 2\<rfloor>"

subsection \<open>Entities (shared/schema.ts)\<close>

text \<open>
  A \<^verbatim>\<open>User\<close>. The handlers answer with the user without its password
  (\<^verbatim>\<open>const { password: _, ...userWithoutPassword } = user\<close>), so the password is the
  one field of the extension. Dates are milliseconds since the epoch.
\<close>

record userWithoutPassword =
  user_id :: string
  user_email :: string
  user_firstName :: string
  user_lastName :: string
  user_userType :: string
  user_area :: string
  user_bio :: "string option"
  user_skills :: "string list option"
  user_hourlyRate :: "int option"
  user_rating :: "int option"
  user_reviewCount :: "int option"
  user_avatarUrl :: "string option"
  user_createdAt :: "int option"

record user = userWithoutPassword +
  user_password :: string

text \<open>\<^verbatim>\<open>InsertUser\<close>: the user without \<^verbatim>\<open>id\<close>, \<^verbatim>\<open>createdAt\<close>, \<^verbatim>\<open>rating\<close>, \<^verbatim>\<open>reviewCount\<close>.\<close>

record insertUser =
  insertUser_email :: string
  insertUser_password :: string
  insertUser_firstName :: string
  insertUser_lastName :: string
  insertUser_userType :: string
  insertUser_area :: string
  insertUser_bio :: "string field"
  insertUser_skills :: "string list field"
  insertUser_hourlyRate :: "int field"
  insertUser_avatarUrl :: "string field"

text \<open>\<^verbatim>\<open>Partial<User>\<close>.\<close>

record partialUser =
  userData_id :: "string option"
  userData_email :: "string option"
  userData_password :: "string option"
  userData_firstName :: "string option"
  userData_lastName :: "string option"
  userData_userType :: "string option"
  userData_area :: "string option"
  userData_bio :: "string option option"
  userData_skills :: "string list option option"
  userData_hourlyRate :: "int option option"
  userData_rating :: "int option option"
  userData_reviewCount :: "int option option"
  userData_avatarUrl :: "string option option"
  userData_createdAt :: "int option option"

record session =
  session_id :: string
  session_studentId :: string
  session_mentorId :: string
  session_topic :: string
  session_description :: "string option"
  session_scheduledAt :: int
  session_duration :: int
  session_status :: string
  session_createdAt :: "int option"

text \<open>\<^verbatim>\<open>InsertSession\<close>: the session without \<^verbatim>\<open>id\<close> and \<^verbatim>\<open>createdAt\<close>.\<close>

record insertSession =
  insertSession_studentId :: string
  insertSession_mentorId :: string
  insertSession_topic :: string
  insertSession_description :: "string field"
  insertSession_scheduledAt :: int
  insertSession_duration :: int
  insertSession_status :: "string option"

record kanbanItem =
  item_id :: string
  item_title :: string
  item_description :: "string option"
  item_type :: string
  item_status :: string
  item_points :: "int option"
  item_assignee :: "string option"
  item_priority :: "string option"
  item_progress :: "int option"
  item_createdAt :: "int option"

text \<open>\<^verbatim>\<open>InsertKanbanItem\<close>: the item without \<^verbatim>\<open>id\<close> and \<^verbatim>\<open>createdAt\<close>.\<close>

record insertKanbanItem =
  insertItem_title :: string
  insertItem_description :: "string field"
  insertItem_type :: string
  insertItem_status :: "string option"
  insertItem_points :: "int field"
  insertItem_assignee :: "string field"
  insertItem_priority :: "string field"
  insertItem_progress :: "int field"

text \<open>\<^verbatim>\<open>Partial<KanbanItem>\<close>.\<close>

record partialKanbanItem =
  itemData_id :: "string option"
  itemData_title :: "string option"
  itemData_description :: "string option option"
  itemData_type :: "string option"
  itemData_status :: "string option"
  itemData_points :: "int option option"
  itemData_assignee :: "string option option"
  itemData_priority :: "string option option"
  itemData_progress :: "int option option"
  itemData_createdAt :: "int option option"

subsection \<open>\<^verbatim>\<open>MemStorage\<close> (server/storage.ts)\<close>

record storage =
  users :: "(string, user) js_map"
  sessions :: "(string, session) js_map"
  kanbanItems :: "(string, kanbanItem) js_map"

definition storage_ok :: "storage \<Rightarrow> bool" where
  "storage_ok st \<longleftrightarrow> map_ok (users st) \<and> map_ok (sessions st) \<and> map_ok (kanbanItems st)"

text \<open>The storage right after the three \<^verbatim>\<open>new Map()\<close> of the constructor.\<close>

definition empty_storage :: storage where
  "empty_storage = \<lparr> users = [], sessions = [], kanbanItems = [] \<rparr>"

definition getUser :: "storage \<Rightarrow> string \<Rightarrow> user option" where
  "getUser st ident = map_get (users st) ident"

definition getUserByEmail :: "storage \<Rightarrow> string \<Rightarrow> user option" where
  "getUserByEmail st email = find (\<lambda>user. user_email user = email) (map_values (users st))"

definition createUser :: "storage \<Rightarrow> insertUser \<Rightarrow> string \<Rightarrow> int \<Rightarrow> user \<times> storage" where
  "createUser st insertUser uuid now =
     (let user = \<lparr> user_id = uuid,
                   user_email = insertUser_email insertUser,
                   user_firstName = insertUser_firstName insertUser,
                   user_lastName = insertUser_lastName insertUser,
                   user_userType = insertUser_userType insertUser,
                   user_area = insertUser_area insertUser,
                   user_bio = str_or_null (insertUser_bio insertUser),
                   user_skills = copy_or_null (insertUser_skills insertUser),
                   user_hourlyRate = int_or_null (insertUser_hourlyRate insertUser),
                   user_rating = Some 0,
                   user_reviewCount = Some 0,
                   user_avatarUrl = str_or_null (insertUser_avatarUrl insertUser),
                   user_createdAt = Some now,
                   user_password = insertUser_password insertUser \<rparr>
      in (user, st\<lparr>users := map_set (users st) uuid user\<rparr>))"

definition merge_user :: "user \<Rightarrow> partialUser \<Rightarrow> user" where
  "merge_user user userData =
     \<lparr> user_id = spread (user_id user) (userData_id userData),
       user_email = spread (user_email user) (userData_email userData),
       user_firstName = spread (user_firstName user) (userData_firstName userData),
       user_lastName = spread (user_lastName user) (userData_lastName userData),
       user_userType = spread (user_userType user) (userData_userType userData),
       user_area = spread (user_area user) (userData_area userData),
       user_bio = spread (user_bio user) (userData_bio userData),
       user_skills = spread (user_skills user) (userData_skills userData),
       user_hourlyRate = spread (user_hourlyRate user) (userData_hourlyRate userData),
       user_rating = spread (user_rating user) (userData_rating userData),
       user_reviewCount = spread (user_reviewCount user) (userData_reviewCount userData),
       user_avatarUrl = spread (user_avatarUrl user) (userData_avatarUrl userData),
       user_createdAt = spread (user_createdAt user) (userData_createdAt userData),
       user_password = spread (user_password user) (userData_password userData) \<rparr>"

definition updateUser :: "storage \<Rightarrow> string \<Rightarrow> partialUser \<Rightarrow> user option \<times> storage" where
  "updateUser st ident userData =
     (case map_get (users st) ident of
        None \<Rightarrow> (None, st)
      | Some user \<Rightarrow>
          (let updatedUser = merge_user user userData
           in (Some updatedUser, st\<lparr>users := map_set (users st) ident updatedUser\<rparr>)))"

definition getMentors :: "storage \<Rightarrow> user list" where
  "getMentors st = filter (\<lambda>user. user_userType user = ''mentor'') (map_values (users st))"

definition getStudents :: "storage \<Rightarrow> user list" where
  "getStudents st = filter (\<lambda>user. user_userType user = ''student'') (map_values (users st))"

definition createSession ::
  "storage \<Rightarrow> insertSession \<Rightarrow> string \<Rightarrow> int \<Rightarrow> session \<times> storage" where
  "createSession st insertSession uuid now =
     (let session = \<lparr> session_id = uuid,
                      session_studentId = insertSession_studentId insertSession,
                      session_mentorId = insertSession_mentorId insertSession,
                      session_topic = insertSession_topic insertSession,
                      session_description = str_or_null (insertSession_description insertSession),
                      session_scheduledAt = insertSession_scheduledAt insertSession,
                      session_duration = insertSession_duration insertSession,
                      session_status = str_or_default (insertSession_status insertSession) ''pending'',
                      session_createdAt = Some now \<rparr>
      in (session, st\<lparr>sessions := map_set (sessions st) uuid session\<rparr>))"

definition getUserSessions :: "storage \<Rightarrow> string \<Rightarrow> session list" where
  "getUserSessions st userId =
     filter (\<lambda>session. session_studentId session = userId \<or> session_mentorId session = userId)
       (map_values (sessions st))"

text \<open>
  \<^verbatim>\<open>session.scheduledAt > new Date()\<close> compares the two dates as numbers of
  milliseconds. The source reads the clock for each session of the user it examines; the
  scan is synchronous, and the model gives it the one reading \<open>now\<close>.
\<close>

definition getUpcomingSessions :: "storage \<Rightarrow> string \<Rightarrow> int \<Rightarrow> session list" where
  "getUpcomingSessions st userId now =
     filter (\<lambda>session. (session_studentId session = userId \<or> session_mentorId session = userId)
                      \<and> session_scheduledAt session > now
                      \<and> session_status session \<noteq> ''cancelled'')
       (map_values (sessions st))"

definition updateSessionStatus :: "storage \<Rightarrow> string \<Rightarrow> string \<Rightarrow> session option \<times> storage" where
  "updateSessionStatus st ident status =
     (case map_get (sessions st) ident of
        None \<Rightarrow> (None, st)
      | Some session \<Rightarrow>
          (let updatedSession = session\<lparr>session_status := status\<rparr>
           in (Some updatedSession, st\<lparr>sessions := map_set (sessions st) ident updatedSession\<rparr>)))"

definition getKanbanItems :: "storage \<Rightarrow> kanbanItem list" where
  "getKanbanItems st = map_values (kanbanItems st)"

definition createKanbanItem ::
  "storage \<Rightarrow> insertKanbanItem \<Rightarrow> string \<Rightarrow> int \<Rightarrow> kanbanItem \<times> storage" where
  "createKanbanItem st insertItem uuid now =
     (let item = \<lparr> item_id = uuid,
                   item_title = insertItem_title insertItem,
                   item_description = str_or_null (insertItem_description insertItem),
                   item_type = insertItem_type insertItem,
                   item_status = str_or_default (insertItem_status insertItem) ''backlog'',
                   item_points = int_or_null (insertItem_points insertItem),
                   item_assignee = str_or_null (insertItem_assignee insertItem),
                   item_priority = str_or_null (insertItem_priority insertItem),
                   item_progress = int_or_null (insertItem_progress insertItem),
                   item_createdAt = Some now \<rparr>
      in (item, st\<lparr>kanbanItems := map_set (kanbanItems st) uuid item\<rparr>))"

definition merge_item :: "kanbanItem \<Rightarrow> partialKanbanItem \<Rightarrow> kanbanItem" where
  "merge_item item itemData =
     \<lparr> item_id = spread (item_id item) (itemData_id itemData),
       item_title = spread (item_title item) (itemData_title itemData),
       item_description = spread (item_description item) (itemData_description itemData),
       item_type = spread (item_type item) (itemData_type itemData),
       item_status = spread (item_status item) (itemData_status itemData),
       item_points = spread (item_points item) (itemData_points itemData),
       item_assignee = spread (item_assignee item) (itemData_assignee itemData),
       item_priority = spread (item_priority item) (itemData_priority itemData),
       item_progress = spread (item_progress item) (itemData_progress itemData),
       item_createdAt = spread (item_createdAt item) (itemData_createdAt itemData) \<rparr>"

definition updateKanbanItem ::
  "storage \<Rightarrow> string \<Rightarrow> partialKanbanItem \<Rightarrow> kanbanItem option \<times> storage" where
  "updateKanbanItem st ident itemData =
     (case map_get (kanbanItems st) ident of
        None \<Rightarrow> (None, st)
      | Some item \<Rightarrow>
          (let updatedItem = merge_item item itemData
           in (Some updatedItem, st\<lparr>kanbanItems := map_set (kanbanItems st) ident updatedItem\<rparr>)))"

definition deleteKanbanItem :: "storage \<Rightarrow> string \<Rightarrow> bool \<times> storage" where
  "deleteKanbanItem st ident =
     (let (existed, m) = map_delete (kanbanItems st) ident
      in (existed, st\<lparr>kanbanItems := m\<rparr>))"

subsection \<open>The handlers that combine storage calls (server/routes.ts)\<close>

text \<open>
  \<^verbatim>\<open>POST /api/auth/register\<close>, from the parsed body on: the storage is asked for a
  user with the e-mail, and only when there is none a user is created.
\<close>

datatype registerResponse = Status201 userWithoutPassword | Status409

definition register ::
  "storage \<Rightarrow> insertUser \<Rightarrow> string \<Rightarrow> int \<Rightarrow> registerResponse \<times> storage" where
  "register st userData uuid now =
     (case getUserByEmail st (insertUser_email userData) of
        Some existingUser \<Rightarrow> (Status409, st)
      | None \<Rightarrow>
          (let (user, st') = createUser st userData uuid now
           in (Status201 (userWithoutPassword.truncate user), st')))"

text \<open>\<^verbatim>\<open>GET /api/dashboard/stats/:userId\<close>.\<close>

record stats =
  scheduledSessions :: nat
  connectedMentors :: nat
  mentoringHours :: int
  averageRating :: number

definition dashboardStats :: "storage \<Rightarrow> string \<Rightarrow> int \<Rightarrow> stats" where
  "dashboardStats st userId now =
     (let allSessions = getUserSessions st userId;
          upcomingSessions = getUpcomingSessions st userId now;
          completedSessions = filter (\<lambda>s. session_status s = ''completed'') allSessions;
          connected = length (remdups (map session_mentorId allSessions));
          totalHours = foldl (\<lambda>sum s. num_add sum (num_div (of_int (session_duration s)) 60))
                         0 completedSessions
      in \<lparr> scheduledSessions = length upcomingSessions,
           connectedMentors = connected,
           mentoringHours = Math_round totalHours,
           averageRating = to_double (48 / 10) \<rparr>)"

subsection \<open>Example data\<close>

text \<open>
  A small storage used to run the theorems below on concrete inputs: one student, two
  mentors, the three sessions of the dashboard example (60 and 90 minutes completed,
  30 minutes pending) and two kanban items.
\<close>

definition example_student :: user where
  "example_student =
     \<lparr> user_id = ''student1'', user_email = ''joao@student.com'', user_firstName = ''Joao'',
       user_lastName = ''Silva'', user_userType = ''student'', user_area = ''Tecnologia'',
       user_bio = None, user_skills = Some [''JavaScript'', ''CSS''],
       user_hourlyRate = Some 0, user_rating = Some 0, user_reviewCount = Some 0,
       user_avatarUrl = None, user_createdAt = Some 0, user_password = ''password123'' \<rparr>"

definition example_mentor1 :: user where
  "example_mentor1 =
     \<lparr> user_id = ''mentor1'', user_email = ''ana@mentorconnect.com'', user_firstName = ''Ana'',
       user_lastName = ''Rodrigues'', user_userType = ''mentor'', user_area = ''Tecnologia'',
       user_bio = Some ''Especialista em React'', user_skills = Some [''React'', ''CSS''],
       user_hourlyRate = Some 80, user_rating = Some 49, user_reviewCount = Some 23,
       user_avatarUrl = None, user_createdAt = Some 0, user_password = ''password123'' \<rparr>"

definition example_mentor2 :: user where
  "example_mentor2 =
     \<lparr> user_id = ''mentor2'', user_email = ''roberto@mentorconnect.com'',
       user_firstName = ''Roberto'', user_lastName = ''Silva'', user_userType = ''mentor'',
       user_area = ''Negocios'', user_bio = None, user_skills = Some [''Growth''],
       user_hourlyRate = Some 120, user_rating = Some 48, user_reviewCount = Some 31,
       user_avatarUrl = None, user_createdAt = Some 0, user_password = ''password123'' \<rparr>"

definition example_session :: "string \<Rightarrow> string \<Rightarrow> int \<Rightarrow> int \<Rightarrow> string \<Rightarrow> session" where
  "example_session ident mentor scheduled minutes status =
     \<lparr> session_id = ident, session_studentId = ''student1'', session_mentorId = mentor,
       session_topic = ''React Performance'', session_description = None,
       session_scheduledAt = scheduled, session_duration = minutes, session_status = status,
       session_createdAt = Some 0 \<rparr>"

definition example_item :: "string \<Rightarrow> string \<Rightarrow> kanbanItem" where
  "example_item ident title =
     \<lparr> item_id = ident, item_title = title, item_description = None, item_type = ''story'',
       item_status = ''todo'', item_points = Some 3, item_assignee = Some ''Maria Costa'',
       item_priority = Some ''high'', item_progress = Some 0, item_createdAt = Some 0 \<rparr>"

definition example_storage :: storage where
  "example_storage =
     \<lparr> users = [(''student1'', example_student), (''mentor1'', example_mentor1),
                (''mentor2'', example_mentor2)],
       sessions = [(''session1'', example_session ''session1'' ''mentor1'' 1000 60 ''completed''),
                   (''session2'', example_session ''session2'' ''mentor2'' 2000 90 ''completed''),
                   (''session3'', example_session ''session3'' ''mentor1'' 3000 30 ''pending'')],
       kanbanItems = [(''kanban1'', example_item ''kanban1'' ''Formulario de cadastro''),
                      (''kanban2'', example_item ''kanban2'' ''Landing page'')] \<rparr>"

definition example_storage_cancelled :: storage where
  "example_storage_cancelled =
     example_storage
       \<lparr> sessions :=
           [(''session1'', example_session ''session1'' ''mentor1'' 1000 60 ''completed''),
            (''session2'', example_session ''session2'' ''mentor2'' 2000 90 ''confirmed''),
            (''session3'', example_session ''session3'' ''mentor1'' 3000 30 ''pending''),
            (''session4'', example_session ''session4'' ''mentor2'' 4000 45 ''cancelled''),
            (''session5'', example_session ''session5'' ''mentor1'' 1500 45 ''pending'')] \<rparr>"

definition example_insertUser :: insertUser where
  "example_insertUser =
     \<lparr> insertUser_email = ''maria@student.com'', insertUser_password = ''secret12'',
       insertUser_firstName = ''Maria'', insertUser_lastName = ''Costa'',
       insertUser_userType = ''student'', insertUser_area = ''Design'',
       insertUser_bio = Absent, insertUser_skills = Absent,
       insertUser_hourlyRate = Present 0, insertUser_avatarUrl = Null \<rparr>"


definition example_insertSession :: insertSession where
  "example_insertSession =
     \<lparr> insertSession_studentId = ''student1'', insertSession_mentorId = ''mentor2'',
       insertSession_topic = ''Product Strategy'', insertSession_description = Present [],
       insertSession_scheduledAt = 1700003600000, insertSession_duration = 45,
       insertSession_status = None \<rparr>"

definition example_insertItem :: insertKanbanItem where
  "example_insertItem =
     \<lparr> insertItem_title = ''Sistema de avaliacoes'', insertItem_description = Absent,
       insertItem_type = ''feature'', insertItem_status = None, insertItem_points = Present 0,
       insertItem_assignee = Null, insertItem_priority = Present ''low'',
       insertItem_progress = Absent \<rparr>"

text \<open>The same storage with three completed sessions of 30, 40 and 20 minutes.\<close>

definition example_storage_thirds :: storage where
  "example_storage_thirds =
     example_storage
       \<lparr> sessions :=
           [(''session1'', example_session ''session1'' ''mentor1'' 1000 30 ''completed''),
            (''session2'', example_session ''session2'' ''mentor2'' 2000 40 ''completed''),
            (''session3'', example_session ''session3'' ''mentor1'' 3000 20 ''completed'')] \<rparr>"

subsection \<open>Notions used to state the properties\<close>

text \<open>
  \<open>merged_field old patch new\<close>: the field of the updated entity carries the patch's
  value when the patch names the field and the old value when it does not. The empty
  patches are the object \<^verbatim>\<open>{}\<close>.
\<close>

definition merged_field :: "'a \<Rightarrow> 'a option \<Rightarrow> 'a \<Rightarrow> bool" where
  "merged_field old patch new \<longleftrightarrow> (\<forall>v. patch = Some v \<longrightarrow> new = v) \<and> (patch = None \<longrightarrow> new = old)"

definition empty_userData :: partialUser where
  "empty_userData =
     \<lparr> userData_id = None, userData_email = None, userData_password = None,
       userData_firstName = None, userData_lastName = None, userData_userType = None,
       userData_area = None, userData_bio = None, userData_skills = None,
       userData_hourlyRate = None, userData_rating = None, userData_reviewCount = None,
       userData_avatarUrl = None, userData_createdAt = None \<rparr>"

definition empty_itemData :: partialKanbanItem where
  "empty_itemData =
     \<lparr> itemData_id = None, itemData_title = None, itemData_description = None,
       itemData_type = None, itemData_status = None, itemData_points = None,
       itemData_assignee = None, itemData_priority = None, itemData_progress = None,
       itemData_createdAt = None \<rparr>"

definition user_merged :: "user \<Rightarrow> partialUser \<Rightarrow> user \<Rightarrow> bool" where
  "user_merged user userData updated \<longleftrightarrow>
     merged_field (user_id user) (userData_id userData) (user_id updated)
     \<and> merged_field (user_email user) (userData_email userData) (user_email updated)
     \<and> merged_field (user_password user) (userData_password userData) (user_password updated)
     \<and> merged_field (user_firstName user) (userData_firstName userData) (user_firstName updated)
     \<and> merged_field (user_lastName user) (userData_lastName userData) (user_lastName updated)
     \<and> merged_field (user_userType user) (userData_userType userData) (user_userType updated)
     \<and> merged_field (user_area user) (userData_area userData) (user_area updated)
     \<and> merged_field (user_bio user) (userData_bio userData) (user_bio updated)
     \<and> merged_field (user_skills user) (userData_skills userData) (user_skills updated)
     \<and> merged_field (user_hourlyRate user) (userData_hourlyRate userData) (user_hourlyRate updated)
     \<and> merged_field (user_rating user) (userData_rating userData) (user_rating updated)
     \<and> merged_field (user_reviewCount user) (userData_reviewCount userData) (user_reviewCount updated)
     \<and> merged_field (user_avatarUrl user) (userData_avatarUrl userData) (user_avatarUrl updated)
     \<and> merged_field (user_createdAt user) (userData_createdAt userData) (user_createdAt updated)"

definition item_merged :: "kanbanItem \<Rightarrow> partialKanbanItem \<Rightarrow> kanbanItem \<Rightarrow> bool" where
  "item_merged item itemData updated \<longleftrightarrow>
     merged_field (item_id item) (itemData_id itemData) (item_id updated)
     \<and> merged_field (item_title item) (itemData_title itemData) (item_title updated)
     \<and> merged_field (item_description item) (itemData_description itemData) (item_description updated)
     \<and> merged_field (item_type item) (itemData_type itemData) (item_type updated)
     \<and> merged_field (item_status item) (itemData_status itemData) (item_status updated)
     \<and> merged_field (item_points item) (itemData_points itemData) (item_points updated)
     \<and> merged_field (item_assignee item) (itemData_assignee itemData) (item_assignee updated)
     \<and> merged_field (item_priority item) (itemData_priority itemData) (item_priority updated)
     \<and> merged_field (item_progress item) (itemData_progress itemData) (item_progress updated)
     \<and> merged_field (item_createdAt item) (itemData_createdAt itemData) (item_createdAt updated)"

definition session_status_set :: "session \<Rightarrow> string \<Rightarrow> session \<Rightarrow> bool" where
  "session_status_set session status updated \<longleftrightarrow>
     session_status updated = status
     \<and> session_id updated = session_id session
     \<and> session_studentId updated = session_studentId session
     \<and> session_mentorId updated = session_mentorId session
     \<and> session_topic updated = session_topic session
     \<and> session_description updated = session_description session
     \<and> session_scheduledAt updated = session_scheduledAt session
     \<and> session_duration updated = session_duration session
     \<and> session_createdAt updated = session_createdAt session"

text \<open>
  The e-mails of the stored users are pairwise different; \<open>registrations\<close> runs a
  sequence of registration requests, each with the identifier and the clock reading of
  its call.
\<close>

definition emails_distinct :: "storage \<Rightarrow> bool" where
  "emails_distinct st \<longleftrightarrow> distinct (map user_email (map_values (users st)))"

fun registrations :: "storage \<Rightarrow> (insertUser \<times> string \<times> int) list \<Rightarrow> storage" where
  "registrations st [] = st"
| "registrations st ((userData, uuid, now) # requests) =
     registrations (snd (register st userData uuid now)) requests"

text \<open>
  For the dashboard: the completed sessions of a user, the sum the handler computes
  (\<^verbatim>\<open>reduce\<close> from the left, in doubles), the same sum in exact arithmetic, and the
  hours as the specification words them: the exact sum, rounded to the nearest integer
  with a tie going up, as in its example \<^verbatim>\<open>round(60/60 + 90/60) = 3\<close>.
\<close>

definition completed_sessions :: "storage \<Rightarrow> string \<Rightarrow> session list" where
  "completed_sessions st userId =
     filter (\<lambda>s. session_status s = ''completed'') (getUserSessions st userId)"

definition double_hours :: "session list \<Rightarrow> number" where
  "double_hours cs =
     foldl (\<lambda>sum s. num_add sum (num_div (of_int (session_duration s)) 60)) 0 cs"

definition hours_exact :: "session list \<Rightarrow> rat" where
  "hours_exact cs = (\<Sum>s\<leftarrow>cs. of_int (session_duration s) / 60)"

definition mentoringHours_spec :: "storage \<Rightarrow> string \<Rightarrow> int" where
  "mentoringHours_spec st userId = round (hours_exact (completed_sessions st userId))"

section \<open>Properties\<close>

subsection \<open>The \<^verbatim>\<open>Map\<close> operations\<close>

lemma map_get_set: "map_get (map_set m k v) k' = (if k' = k then Some v else map_get m k')"
  by (simp add: map_get_def map_set_def update_conv')

lemma map_get_delete:
  "map_get (snd (map_delete m k)) k' = (if k' = k then None else map_get m k')"
  by (simp add: map_get_def map_delete_def delete_conv')


lemma map_ok_set: "map_ok m \<Longrightarrow> map_ok (map_set m k v)"
  by (simp add: map_ok_def map_set_def distinct_update)

lemma map_ok_delete: "map_ok m \<Longrightarrow> map_ok (snd (map_delete m k))"
  by (simp add: map_ok_def map_delete_def distinct_delete)

lemma map_values_iff_get:
  "map_ok m \<Longrightarrow> v \<in> set (map_values m) \<longleftrightarrow> (\<exists>k. map_get m k = Some v)"
  by (force simp: map_ok_def map_values_def map_get_def)

lemma finite_map_get_keys: "finite {k. \<exists>v. map_get m k = Some v \<and> P v}"
proof (rule finite_subset)
  show "{k. \<exists>v. map_get m k = Some v \<and> P v} \<subseteq> fst ` set m"
    by (auto simp: map_get_def dest: map_of_SomeD intro: rev_image_eqI)
qed simp

lemma length_filter_map_values:
  "map_ok m \<Longrightarrow> length (filter P (map_values m)) = card {k. \<exists>v. map_get m k = Some v \<and> P v}"
proof (induction m)
  case Nil
  then show ?case by (simp add: map_values_def map_get_def)
next
  case (Cons e m)
  obtain k0 v0 where e: "e = (k0, v0)" by (cases e)
  from Cons.prems have ok: "map_ok m" and fresh: "k0 \<notin> fst ` set m"
    by (auto simp: map_ok_def e)
  let ?S = "{k. \<exists>v. map_get m k = Some v \<and> P v}"
  have fin: "finite ?S" by (rule finite_map_get_keys)
  have notin: "k0 \<notin> ?S"
    using fresh by (auto simp: map_get_def dest: map_of_SomeD intro: rev_image_eqI)
  have split: "{k. \<exists>v. map_get (e # m) k = Some v \<and> P v} = (if P v0 then insert k0 ?S else ?S)"
    using notin by (auto simp: e map_get_def)
  show ?case
    using Cons.IH [OF ok] fin notin
    by (simp add: split) (simp add: map_values_def e)
qed

lemma map_set_value_mem: "v \<in> set (map_values (map_set m k v))"
  unfolding map_values_def map_set_def by (induction m) auto

lemma map_values_set_subset: "set (map_values (map_set m k v)) \<subseteq> insert v (set (map_values m))"
  unfolding map_values_def map_set_def by (induction m) auto

lemma distinct_map_values_set:
  assumes "distinct (map f (map_values m))" and "f v \<notin> f ` set (map_values m)"
  shows "distinct (map f (map_values (map_set m k v)))"
  using assms
proof (induction m)
  case Nil
  then show ?case by (simp add: map_values_def map_set_def)
next
  case (Cons e m)
  show ?case
  proof (cases "fst e = k")
    case True
    with Cons.prems show ?thesis by (auto simp: map_values_def map_set_def)
  next
    case False
    from Cons.prems have d: "distinct (map f (map_values m))"
      and n: "f v \<notin> f ` set (map_values m)"
      and e1: "f (snd e) \<notin> f ` set (map_values m)" and e2: "f (snd e) \<noteq> f v"
      by (auto simp: map_values_def)
    have "f (snd e) \<notin> f ` set (map_values (map_set m k v))"
      using map_values_set_subset [of m k v] e1 e2 by auto
    with Cons.IH [OF d n] False show ?thesis
      by (simp add: map_values_def map_set_def image_image)
  qed
qed

subsection \<open>Well-formed storages\<close>

text \<open>
  The three collections of a storage have pairwise different keys: that holds after
  \<^verbatim>\<open>new Map()\<close> and every method keeps it, so it holds in every storage the program
  reaches (the constructor seeds the collections with \<^verbatim>\<open>set\<close>).
\<close>

lemma storage_ok_empty: "storage_ok empty_storage"
  by (simp add: storage_ok_def empty_storage_def map_ok_def)

lemma storage_ok_preserved:
  assumes "storage_ok st"
  shows "storage_ok (snd (createUser st insertUser uuid now))"
    and "storage_ok (snd (updateUser st ident userData))"
    and "storage_ok (snd (createSession st insertSession uuid now))"
    and "storage_ok (snd (updateSessionStatus st ident status))"
    and "storage_ok (snd (createKanbanItem st insertItem uuid now))"
    and "storage_ok (snd (updateKanbanItem st ident itemData))"
    and "storage_ok (snd (deleteKanbanItem st ident))"
    and "storage_ok (snd (register st insertUser uuid now))"
  using assms map_ok_delete [of "kanbanItems st" ident]
  by (auto simp: storage_ok_def createUser_def updateUser_def createSession_def
      updateSessionStatus_def createKanbanItem_def updateKanbanItem_def deleteKanbanItem_def
      register_def Let_def map_ok_set split: option.splits prod.splits)

subsection \<open>Rounding to doubles\<close>

text \<open>
  Rounding changes a number by at most the fraction \<open>1 / 2 ^ 53\<close> of it, and a
  multiple of a quarter below \<open>2 ^ 50\<close> in absolute value is a double: rounding leaves
  it as it is.
\<close>

lemma expo_lower:
  assumes "x \<noteq> 0"
  shows "2 powi (expo x) \<le> \<bar>x\<bar>"
proof -
  obtain a b where q: "quotient_of \<bar>x\<bar> = (a, b)" by (cases "quotient_of \<bar>x\<bar>")
  have b: "0 < b" using q by (rule quotient_of_denom_pos)
  have x: "\<bar>x\<bar> = of_int a / of_int b" using q by (rule quotient_of_div)
  have a: "0 < a"
  proof (rule ccontr)
    assume "\<not> 0 < a"
    then have "of_int a / (of_int b :: rat) \<le> 0" using b by (simp add: divide_le_0_iff)
    with x assms show False by simp
  qed
  let ?e0 = "bitlen a - bitlen b"
  have ex: "expo x = (if 2 powi ?e0 \<le> \<bar>x\<bar> then ?e0 else ?e0 - 1)"
    by (simp add: expo_def q)
  show ?thesis
  proof (cases "2 powi ?e0 \<le> \<bar>x\<bar>")
    case True
    then show ?thesis by (simp add: ex)
  next
    case False
    have la: "1 \<le> bitlen a" and lb: "1 \<le> bitlen b"
      using a b bitlen_eq_zero_iff [of a] bitlen_eq_zero_iff [of b] bitlen_nonneg [of a]
        bitlen_nonneg [of b] by linarith+
    from bitlen_bounds [OF a] have "(2::int) ^ nat (bitlen a - 1) \<le> a" by simp
    then have "(of_int ((2::int) ^ nat (bitlen a - 1)) :: rat) \<le> of_int a"
      by (simp only: of_int_le_iff)
    then have A: "(2::rat) powi (bitlen a - 1) \<le> of_int a"
      using la by (simp add: power_int_def)
    from bitlen_bounds [OF b] have "b < (2::int) ^ nat (bitlen b)" by simp
    then have "(of_int b :: rat) < of_int ((2::int) ^ nat (bitlen b))"
      by (simp only: of_int_less_iff)
    then have B: "(of_int b :: rat) < 2 powi (bitlen b)"
      using lb by (simp add: power_int_def)
    have b': "(0::rat) < of_int b" using b by simp
    have "(2::rat) powi (?e0 - 1) = 2 powi (bitlen a - 1) / 2 powi (bitlen b)"
      using power_int_diff [of "2::rat" "bitlen a - 1" "bitlen b"] by (simp add: algebra_simps)
    also have "\<dots> \<le> of_int a / 2 powi (bitlen b)"
      using A by (simp add: divide_right_mono)
    also have "\<dots> \<le> of_int a / of_int b"
      using B b' a by (simp add: frac_le)
    finally show ?thesis using False by (simp add: ex x)
  qed
qed

lemma expo_less:
  assumes "x \<noteq> 0" and "\<bar>x\<bar> < 2 powi n"
  shows "expo x < n"
proof (rule ccontr)
  assume "\<not> expo x < n"
  then have "n \<le> expo x" by simp
  then have "(2::rat) powi n \<le> 2 powi (expo x)" by (intro power_int_increasing) simp_all
  with expo_lower [OF assms(1)] assms(2) show False by simp
qed

lemma round_half_even_of_int: "round_half_even (of_int m) = m"
  by (simp add: round_half_even_def)

lemma to_double_exact:
  assumes "x = of_int n / 4" and "\<bar>x\<bar> < 2 ^ 50"
  shows "to_double x = x"
proof (cases "x = 0")
  case True
  then show ?thesis by (simp add: to_double_def)
next
  case False
  have "\<bar>x\<bar> < 2 powi 50" using assms(2) by simp
  with False have e: "expo x < 50" by (rule expo_less)
  define j where "j = nat (50 - expo x)"
  let ?q = "(2::rat) powi (expo x - 52)"
  have q0: "?q \<noteq> 0" by simp
  have "(2::rat) powi (52 - expo x) = 2 ^ nat (52 - expo x)"
    using e by (simp add: power_int_def)
  also have "nat (52 - expo x) = j + 2" using e by (simp add: j_def)
  finally have p: "(2::rat) powi (52 - expo x) = 4 * 2 ^ j" by simp
  have "x / ?q = x * 2 powi (52 - expo x)"
    using power_int_minus [of "2::rat" "expo x - 52"] by (simp add: field_simps)
  also have "\<dots> = of_int (n * 2 ^ j)"
    unfolding p by (simp add: assms(1))
  finally have xq: "x / ?q = of_int (n * 2 ^ j)" .
  have "to_double x = of_int (round_half_even (x / ?q)) * ?q"
    using False by (simp add: to_double_def Let_def)
  also have "\<dots> = (x / ?q) * ?q"
    by (simp only: xq round_half_even_of_int)
  also have "\<dots> = x" using q0 by simp
  finally show ?thesis .
qed

lemma round_half_even_error: "\<bar>of_int (round_half_even z) - z\<bar> \<le> 1 / 2"
proof -
  have "of_int \<lfloor>z\<rfloor> \<le> z" and "z < of_int \<lfloor>z\<rfloor> + 1" by linarith+
  then show ?thesis
    by (auto simp: round_half_even_def Let_def)
qed

lemma to_double_error: "\<bar>to_double x - x\<bar> \<le> \<bar>x\<bar> / 2 ^ 53"
proof (cases "x = 0")
  case True
  then show ?thesis by (simp add: to_double_def)
next
  case False
  define q :: rat where "q = 2 powi (expo x - 52)"
  define r :: rat where "r = of_int (round_half_even (x / q))"
  have q: "0 < q" by (simp add: q_def)
  have td: "to_double x = r * q"
    using False by (simp add: to_double_def Let_def q_def r_def)
  have "\<bar>r - x / q\<bar> \<le> 1 / 2" unfolding r_def by (rule round_half_even_error)
  then have "\<bar>r - x / q\<bar> * q \<le> 1 / 2 * q" using q by (intro mult_right_mono) simp_all
  moreover have "\<bar>r - x / q\<bar> * q = \<bar>r * q - x\<bar>"
  proof -
    have "\<bar>r - x / q\<bar> * q = \<bar>(r - x / q) * q\<bar>" using q by (simp add: abs_mult)
    also have "(r - x / q) * q = r * q - x" using q by (simp add: field_simps)
    finally show ?thesis .
  qed
  ultimately have e1: "\<bar>to_double x - x\<bar> \<le> q / 2" by (simp add: td)
  have "q = 2 powi (expo x) / 2 ^ 52"
    using power_int_diff [of "2::rat" "expo x" 52] by (simp add: q_def)
  then have "q / 2 = 2 powi (expo x) / 2 ^ 53" by simp
  also have "\<dots> \<le> \<bar>x\<bar> / 2 ^ 53"
    using expo_lower [OF False] by (simp add: divide_right_mono)
  finally show ?thesis using e1 by linarith
qed

subsection \<open>Creation\<close>

text \<open>
  C8. Creation followed by lookup. \<^verbatim>\<open>getUser\<close> with the id of the user that
  \<^verbatim>\<open>createUser\<close> returned gives that user. Sessions and kanban items have no getter by
  id: the lookup is the one of their \<^verbatim>\<open>Map\<close> (as the update methods do it), and
  the public readers \<^verbatim>\<open>getUserSessions\<close> (for the student and for the mentor) and
  \<^verbatim>\<open>getKanbanItems\<close> contain the entity that was returned.
\<close>

theorem create_then_get:
  "getUser (snd (createUser st insertUser uuid now)) (user_id (fst (createUser st insertUser uuid now)))
     = Some (fst (createUser st insertUser uuid now))
   \<and> map_get (sessions (snd (createSession st insertSession uuid now)))
         (session_id (fst (createSession st insertSession uuid now)))
     = Some (fst (createSession st insertSession uuid now))
   \<and> fst (createSession st insertSession uuid now)
       \<in> set (getUserSessions (snd (createSession st insertSession uuid now))
                (insertSession_studentId insertSession))
   \<and> fst (createSession st insertSession uuid now)
       \<in> set (getUserSessions (snd (createSession st insertSession uuid now))
                (insertSession_mentorId insertSession))
   \<and> map_get (kanbanItems (snd (createKanbanItem st insertItem uuid now)))
         (item_id (fst (createKanbanItem st insertItem uuid now)))
     = Some (fst (createKanbanItem st insertItem uuid now))
   \<and> fst (createKanbanItem st insertItem uuid now)
       \<in> set (getKanbanItems (snd (createKanbanItem st insertItem uuid now)))"
  by (simp add: createUser_def createSession_def createKanbanItem_def getUser_def
      getUserSessions_def getKanbanItems_def map_get_set map_set_value_mem Let_def)

theorem create_then_get_witness:
  "getUser (snd (createUser example_storage example_insertUser ''uuid-1'' 1700000000000)) ''uuid-1''
     = Some \<lparr> user_id = ''uuid-1'', user_email = ''maria@student.com'', user_firstName = ''Maria'',
              user_lastName = ''Costa'', user_userType = ''student'', user_area = ''Design'',
              user_bio = None, user_skills = None, user_hourlyRate = None, user_rating = Some 0,
              user_reviewCount = Some 0, user_avatarUrl = None,
              user_createdAt = Some 1700000000000, user_password = ''secret12'' \<rparr>
   \<and> fst (createUser example_storage example_insertUser ''uuid-1'' 1700000000000)
     = \<lparr> user_id = ''uuid-1'', user_email = ''maria@student.com'', user_firstName = ''Maria'',
         user_lastName = ''Costa'', user_userType = ''student'', user_area = ''Design'',
         user_bio = None, user_skills = None, user_hourlyRate = None, user_rating = Some 0,
         user_reviewCount = Some 0, user_avatarUrl = None,
         user_createdAt = Some 1700000000000, user_password = ''secret12'' \<rparr>
   \<and> map_get (sessions (snd (createSession example_storage example_insertSession ''uuid-2''
           1700000000000))) ''uuid-2''
     = Some \<lparr> session_id = ''uuid-2'', session_studentId = ''student1'',
              session_mentorId = ''mentor2'', session_topic = ''Product Strategy'',
              session_description = None, session_scheduledAt = 1700003600000,
              session_duration = 45, session_status = ''pending'',
              session_createdAt = Some 1700000000000 \<rparr>
   \<and> map_get (kanbanItems (snd (createKanbanItem example_storage example_insertItem ''uuid-3''
           1700000000000))) ''uuid-3''
     = Some \<lparr> item_id = ''uuid-3'', item_title = ''Sistema de avaliacoes'',
              item_description = None, item_type = ''feature'', item_status = ''backlog'',
              item_points = None, item_assignee = None, item_priority = Some ''low'',
              item_progress = None, item_createdAt = Some 1700000000000 \<rparr>"
  using create_then_get [of example_storage example_insertUser "''uuid-1''" 1700000000000
      example_insertSession example_insertItem]
    create_then_get [of example_storage example_insertUser "''uuid-2''" 1700000000000
      example_insertSession example_insertItem]
    create_then_get [of example_storage example_insertUser "''uuid-3''" 1700000000000
      example_insertSession example_insertItem]
  by (simp add: createUser_def createSession_def createKanbanItem_def example_insertUser_def
      example_insertSession_def example_insertItem_def Let_def)




text \<open>
  C10. An hourly rate of 0 in the input of \<^verbatim>\<open>createUser\<close> is stored as \<^verbatim>\<open>null\<close>;
  the call returns and stores exactly what it does when the hourly rate is left out.
\<close>

theorem createUser_hourlyRate_zero_is_null:
  assumes "insertUser_hourlyRate insertUser = Present 0"
  shows "user_hourlyRate (fst (createUser st insertUser uuid now)) = None
     \<and> (\<exists>user. getUser (snd (createUser st insertUser uuid now)) uuid = Some user
           \<and> user_hourlyRate user = None)
     \<and> createUser st insertUser uuid now
         = createUser st (insertUser\<lparr>insertUser_hourlyRate := Absent\<rparr>) uuid now"
  using assms by (simp add: createUser_def getUser_def map_get_set Let_def)

theorem createUser_hourlyRate_zero_is_null_witness:
  "insertUser_hourlyRate example_insertUser = Present 0
   \<and> user_hourlyRate (fst (createUser example_storage example_insertUser ''uuid-1'' 1700000000000)) = None
   \<and> createUser example_storage example_insertUser ''uuid-1'' 1700000000000
       = createUser example_storage (example_insertUser\<lparr>insertUser_hourlyRate := Absent\<rparr>)
           ''uuid-1'' 1700000000000"
proof -
  have h: "insertUser_hourlyRate example_insertUser = Present 0"
    by (simp add: example_insertUser_def)
  from createUser_hourlyRate_zero_is_null [OF h, of example_storage "''uuid-1''" 1700000000000] h
  show ?thesis by blast
qed

text \<open>
  C3. What \<^verbatim>\<open>createKanbanItem\<close> stores: points that are left out and points given
  as 0 both become \<^verbatim>\<open>null\<close> (the table declares \<^verbatim>\<open>integer("points").default(0)\<close>),
  other points are kept; a description and an assignee that are left out become
  \<^verbatim>\<open>null\<close>, a status that is left out becomes \<^verbatim>\<open>backlog\<close>; the item returned is
  the item stored.
\<close>

theorem createKanbanItem_points_become_null:
  "item_points (fst (createKanbanItem st (insertItem\<lparr>insertItem_points := Absent\<rparr>) uuid now)) = None
   \<and> item_points (fst (createKanbanItem st (insertItem\<lparr>insertItem_points := Present 0\<rparr>) uuid now)) = None
   \<and> item_points (fst (createKanbanItem st (insertItem\<lparr>insertItem_points := Present 5\<rparr>) uuid now)) = Some 5
   \<and> item_description (fst (createKanbanItem st (insertItem\<lparr>insertItem_description := Absent\<rparr>) uuid now)) = None
   \<and> item_assignee (fst (createKanbanItem st (insertItem\<lparr>insertItem_assignee := Absent\<rparr>) uuid now)) = None
   \<and> item_status (fst (createKanbanItem st (insertItem\<lparr>insertItem_status := None\<rparr>) uuid now)) = ''backlog''
   \<and> map_get (kanbanItems (snd (createKanbanItem st insertItem uuid now))) uuid
       = Some (fst (createKanbanItem st insertItem uuid now))"
  by (simp add: createKanbanItem_def map_get_set Let_def)

subsection \<open>Registration\<close>

lemma getUserByEmail_None_iff:
  "getUserByEmail st email = None \<longleftrightarrow> email \<notin> user_email ` set (map_values (users st))"
  by (auto simp: getUserByEmail_def find_None_iff)

lemma register_emails_distinct:
  assumes "emails_distinct st"
  shows "emails_distinct (snd (register st userData uuid now))"
proof (cases "getUserByEmail st (insertUser_email userData)")
  case (Some existingUser)
  with assms show ?thesis by (simp add: register_def)
next
  case None
  then have "insertUser_email userData \<notin> user_email ` set (map_values (users st))"
    by (simp add: getUserByEmail_None_iff)
  then have "user_email (fst (createUser st userData uuid now))
      \<notin> user_email ` set (map_values (users st))"
    by (simp add: createUser_def Let_def)
  with assms have "distinct (map user_email (map_values
      (map_set (users st) uuid (fst (createUser st userData uuid now)))))"
    unfolding emails_distinct_def by (rule distinct_map_values_set)
  with None show ?thesis
    by (simp add: register_def emails_distinct_def createUser_def Let_def)
qed

lemma registrations_emails_distinct:
  "emails_distinct st \<Longrightarrow> emails_distinct (registrations st requests)"
  by (induction st requests rule: registrations.induct) (simp_all add: register_emails_distinct)

lemma register_email_taken:
  assumes "insertUser_email userData \<in> user_email ` set (map_values (users st))"
  shows "register st userData uuid now = (Status409, st)"
proof -
  from assms have "getUserByEmail st (insertUser_email userData) \<noteq> None"
    by (simp add: getUserByEmail_None_iff)
  then show ?thesis by (auto simp: register_def)
qed

lemma register_email_stored:
  "insertUser_email userData
     \<in> user_email ` set (map_values (users (snd (register st userData uuid now))))"
proof (cases "getUserByEmail st (insertUser_email userData)")
  case (Some existingUser)
  then have "getUserByEmail st (insertUser_email userData) \<noteq> None" by simp
  then have "insertUser_email userData \<in> user_email ` set (map_values (users st))"
    by (simp add: getUserByEmail_None_iff)
  with Some show ?thesis by (simp add: register_def)
next
  case None
  let ?user = "fst (createUser st userData uuid now)"
  have "?user \<in> set (map_values (map_set (users st) uuid ?user))"
    by (rule map_set_value_mem)
  moreover have "user_email ?user = insertUser_email userData"
    by (simp add: createUser_def Let_def)
  ultimately have "insertUser_email userData
      \<in> user_email ` set (map_values (map_set (users st) uuid ?user))"
    by (metis imageI)
  with None show ?thesis by (simp add: register_def createUser_def Let_def)
qed

text \<open>
  C5. Distinct e-mails are an invariant of registration: from a storage whose users have
  pairwise different e-mails, one registration, and any sequence of registrations, leads
  to a storage whose users have pairwise different e-mails. A registration with the
  e-mail of a stored user is answered with 409 and leaves the storage as it was; so is a
  second registration with the e-mail of a first one.
\<close>

theorem register_keeps_emails_distinct:
  assumes "emails_distinct st"
  shows "emails_distinct (snd (register st userData uuid now))
     \<and> emails_distinct (registrations st requests)
     \<and> (insertUser_email userData \<in> user_email ` set (map_values (users st))
          \<longrightarrow> register st userData uuid now = (Status409, st))
     \<and> (insertUser_email userData' = insertUser_email userData
          \<longrightarrow> register (snd (register st userData uuid now)) userData' uuid' now'
              = (Status409, snd (register st userData uuid now)))"
proof (intro conjI impI)
  show "emails_distinct (snd (register st userData uuid now))"
    using assms by (rule register_emails_distinct)
  show "emails_distinct (registrations st requests)"
    using assms by (rule registrations_emails_distinct)
  show "register st userData uuid now = (Status409, st)"
    if "insertUser_email userData \<in> user_email ` set (map_values (users st))"
    using that by (rule register_email_taken)
  show "register (snd (register st userData uuid now)) userData' uuid' now'
              = (Status409, snd (register st userData uuid now))"
    if "insertUser_email userData' = insertUser_email userData"
    using register_email_stored [of userData st uuid now] that
    by (intro register_email_taken) simp
qed

theorem register_keeps_emails_distinct_witness:
  "emails_distinct example_storage
   \<and> fst (register example_storage example_insertUser ''uuid-1'' 1700000000000)
       = Status201 \<lparr> user_id = ''uuid-1'', user_email = ''maria@student.com'',
                     user_firstName = ''Maria'', user_lastName = ''Costa'',
                     user_userType = ''student'', user_area = ''Design'', user_bio = None,
                     user_skills = None, user_hourlyRate = None, user_rating = Some 0,
                     user_reviewCount = Some 0, user_avatarUrl = None,
                     user_createdAt = Some 1700000000000 \<rparr>
   \<and> emails_distinct (snd (register example_storage example_insertUser ''uuid-1'' 1700000000000))
   \<and> emails_distinct (registrations example_storage
         [(example_insertUser, ''uuid-1'', 1700000000000),
          (example_insertUser, ''uuid-2'', 1700000000001)])
   \<and> register (snd (register example_storage example_insertUser ''uuid-1'' 1700000000000))
         example_insertUser ''uuid-2'' 1700000000001
       = (Status409, snd (register example_storage example_insertUser ''uuid-1'' 1700000000000))
   \<and> ''ana@mentorconnect.com'' \<in> user_email ` set (map_values (users example_storage))
   \<and> register example_storage (example_insertUser\<lparr>insertUser_email := ''ana@mentorconnect.com''\<rparr>)
         ''uuid-3'' 1700000000000
       = (Status409, example_storage)"
proof -
  have h: "emails_distinct example_storage"
    by (simp add: emails_distinct_def example_storage_def map_values_def example_student_def
        example_mentor1_def example_mentor2_def)
  have taken: "''ana@mentorconnect.com'' \<in> user_email ` set (map_values (users example_storage))"
    by (simp add: example_storage_def map_values_def example_mentor1_def)
  have created: "fst (register example_storage example_insertUser ''uuid-1'' 1700000000000)
       = Status201 \<lparr> user_id = ''uuid-1'', user_email = ''maria@student.com'',
                     user_firstName = ''Maria'', user_lastName = ''Costa'',
                     user_userType = ''student'', user_area = ''Design'', user_bio = None,
                     user_skills = None, user_hourlyRate = None, user_rating = Some 0,
                     user_reviewCount = Some 0, user_avatarUrl = None,
                     user_createdAt = Some 1700000000000 \<rparr>"
    by (simp add: register_def getUserByEmail_def createUser_def example_storage_def
        map_values_def example_student_def example_mentor1_def example_mentor2_def
        example_insertUser_def userWithoutPassword.truncate_def Let_def)
  from register_keeps_emails_distinct [OF h, of example_insertUser "''uuid-1''" 1700000000000
      "[(example_insertUser, ''uuid-1'', 1700000000000),
        (example_insertUser, ''uuid-2'', 1700000000001)]" example_insertUser
      "''uuid-2''" 1700000000001]
    register_keeps_emails_distinct [OF h,
      of "example_insertUser\<lparr>insertUser_email := ''ana@mentorconnect.com''\<rparr>"
      "''uuid-3''" 1700000000000 "[]" example_insertUser "''uuid-2''" 1700000000001]
    h taken created
  show ?thesis by simp
qed

subsection \<open>Updates\<close>

lemma merged_field_spread: "merged_field old patch (spread old patch)"
  by (cases patch) (simp_all add: merged_field_def)

lemma updateUser_present:
  assumes "map_get (users st) ident = Some user"
  shows "updateUser st ident userData
         = (Some (merge_user user userData),
            st\<lparr>users := map_set (users st) ident (merge_user user userData)\<rparr>)"
  using assms by (simp add: updateUser_def Let_def)

lemma updateSessionStatus_present:
  assumes "map_get (sessions st) ident = Some session"
  shows "updateSessionStatus st ident status
         = (Some (session\<lparr>session_status := status\<rparr>),
            st\<lparr>sessions := map_set (sessions st) ident (session\<lparr>session_status := status\<rparr>)\<rparr>)"
  using assms by (simp add: updateSessionStatus_def Let_def)

lemma updateKanbanItem_present:
  assumes "map_get (kanbanItems st) ident = Some item"
  shows "updateKanbanItem st ident itemData
         = (Some (merge_item item itemData),
            st\<lparr>kanbanItems := map_set (kanbanItems st) ident (merge_item item itemData)\<rparr>)"
  using assms by (simp add: updateKanbanItem_def Let_def)

lemma user_merged_merge_user: "user_merged user userData (merge_user user userData)"
  by (simp add: user_merged_def merge_user_def merged_field_spread)

lemma item_merged_merge_item: "item_merged item itemData (merge_item item itemData)"
  by (simp add: item_merged_def merge_item_def merged_field_spread)

text \<open>
  C6. For an id that is not in the store, \<^verbatim>\<open>updateUser\<close>, \<^verbatim>\<open>updateSessionStatus\<close>
  and \<^verbatim>\<open>updateKanbanItem\<close> return the absent value and leave the storage as it was;
  for an id that is in the store they return the updated entity, which is then the one
  stored under the id. The methods are total functions into an option: no path of
  theirs throws.
\<close>

theorem update_unknown_id_absent:
  "(map_get (users st) ident = None \<longrightarrow> updateUser st ident userData = (None, st))
   \<and> (map_get (sessions st) ident = None \<longrightarrow> updateSessionStatus st ident status = (None, st))
   \<and> (map_get (kanbanItems st) ident = None \<longrightarrow> updateKanbanItem st ident itemData = (None, st))
   \<and> (\<forall>user. map_get (users st) ident = Some user \<longrightarrow>
         fst (updateUser st ident userData) = Some (merge_user user userData)
         \<and> getUser (snd (updateUser st ident userData)) ident = Some (merge_user user userData))
   \<and> (\<forall>session. map_get (sessions st) ident = Some session \<longrightarrow>
         fst (updateSessionStatus st ident status) = Some (session\<lparr>session_status := status\<rparr>)
         \<and> map_get (sessions (snd (updateSessionStatus st ident status))) ident
             = Some (session\<lparr>session_status := status\<rparr>))
   \<and> (\<forall>item. map_get (kanbanItems st) ident = Some item \<longrightarrow>
         fst (updateKanbanItem st ident itemData) = Some (merge_item item itemData)
         \<and> map_get (kanbanItems (snd (updateKanbanItem st ident itemData))) ident
             = Some (merge_item item itemData))"
  by (simp add: updateUser_def updateSessionStatus_def updateKanbanItem_def getUser_def
      map_get_set Let_def)

theorem update_unknown_id_absent_witness:
  "map_get (kanbanItems example_storage) ''kanban99'' = None
   \<and> updateKanbanItem example_storage ''kanban99'' (empty_itemData\<lparr>itemData_status := Some ''done''\<rparr>)
       = (None, example_storage)
   \<and> map_get (kanbanItems example_storage) ''kanban2'' = Some (example_item ''kanban2'' ''Landing page'')
   \<and> fst (updateKanbanItem example_storage ''kanban2'' (empty_itemData\<lparr>itemData_status := Some ''done''\<rparr>))
       = Some ((example_item ''kanban2'' ''Landing page'')\<lparr>item_status := ''done''\<rparr>)
   \<and> map_get (users example_storage) ''nobody'' = None
   \<and> updateUser example_storage ''nobody'' empty_userData = (None, example_storage)
   \<and> map_get (users example_storage) ''mentor2'' = Some example_mentor2
   \<and> fst (updateUser example_storage ''mentor2'' (empty_userData\<lparr>userData_area := Some ''Produto''\<rparr>))
       = Some (example_mentor2\<lparr>user_area := ''Produto''\<rparr>)
   \<and> map_get (sessions example_storage) ''session9'' = None
   \<and> updateSessionStatus example_storage ''session9'' ''confirmed'' = (None, example_storage)
   \<and> map_get (sessions example_storage) ''session3''
       = Some (example_session ''session3'' ''mentor1'' 3000 30 ''pending'')
   \<and> fst (updateSessionStatus example_storage ''session3'' ''confirmed'')
       = Some (example_session ''session3'' ''mentor1'' 3000 30 ''confirmed'')"
  using update_unknown_id_absent [of example_storage "''kanban99''" empty_userData "''confirmed''"
      "empty_itemData\<lparr>itemData_status := Some ''done''\<rparr>"]
    update_unknown_id_absent [of example_storage "''kanban2''" empty_userData "''confirmed''"
      "empty_itemData\<lparr>itemData_status := Some ''done''\<rparr>"]
    update_unknown_id_absent [of example_storage "''nobody''" empty_userData "''confirmed''" empty_itemData]
    update_unknown_id_absent [of example_storage "''mentor2''"
      "empty_userData\<lparr>userData_area := Some ''Produto''\<rparr>" "''confirmed''" empty_itemData]
    update_unknown_id_absent [of example_storage "''session9''" empty_userData "''confirmed''" empty_itemData]
    update_unknown_id_absent [of example_storage "''session3''" empty_userData "''confirmed''" empty_itemData]
  by (simp add: example_storage_def map_get_def merge_item_def merge_user_def empty_itemData_def
      empty_userData_def example_item_def example_mentor2_def example_session_def)

text \<open>
  C9. An update is a shallow merge. For an entity stored under the id, every field the
  patch names carries the patch's value and every field it does not name keeps the
  stored value (\<^verbatim>\<open>updateSessionStatus\<close> sets the status and keeps the other eight
  fields); the entities under other ids and the two other collections are unchanged.
\<close>

theorem update_shallow_merge_frame:
  "(\<forall>user. map_get (users st) ident = Some user \<longrightarrow>
      (\<exists>updated. fst (updateUser st ident userData) = Some updated
         \<and> user_merged user userData updated
         \<and> map_get (users (snd (updateUser st ident userData))) ident = Some updated)
      \<and> (\<forall>k. k \<noteq> ident \<longrightarrow>
            map_get (users (snd (updateUser st ident userData))) k = map_get (users st) k)
      \<and> sessions (snd (updateUser st ident userData)) = sessions st
      \<and> kanbanItems (snd (updateUser st ident userData)) = kanbanItems st)
   \<and> (\<forall>session. map_get (sessions st) ident = Some session \<longrightarrow>
      (\<exists>updated. fst (updateSessionStatus st ident status) = Some updated
         \<and> session_status_set session status updated
         \<and> map_get (sessions (snd (updateSessionStatus st ident status))) ident = Some updated)
      \<and> (\<forall>k. k \<noteq> ident \<longrightarrow>
            map_get (sessions (snd (updateSessionStatus st ident status))) k
            = map_get (sessions st) k)
      \<and> users (snd (updateSessionStatus st ident status)) = users st
      \<and> kanbanItems (snd (updateSessionStatus st ident status)) = kanbanItems st)
   \<and> (\<forall>item. map_get (kanbanItems st) ident = Some item \<longrightarrow>
      (\<exists>updated. fst (updateKanbanItem st ident itemData) = Some updated
         \<and> item_merged item itemData updated
         \<and> map_get (kanbanItems (snd (updateKanbanItem st ident itemData))) ident = Some updated)
      \<and> (\<forall>k. k \<noteq> ident \<longrightarrow>
            map_get (kanbanItems (snd (updateKanbanItem st ident itemData))) k
            = map_get (kanbanItems st) k)
      \<and> users (snd (updateKanbanItem st ident itemData)) = users st
      \<and> sessions (snd (updateKanbanItem st ident itemData)) = sessions st)"
proof (intro conjI allI impI)
  fix user assume "map_get (users st) ident = Some user"
  note u = updateUser_present [OF this, of userData]
  show "\<exists>updated. fst (updateUser st ident userData) = Some updated
         \<and> user_merged user userData updated
         \<and> map_get (users (snd (updateUser st ident userData))) ident = Some updated"
    by (simp add: u user_merged_merge_user map_get_set)
  show "sessions (snd (updateUser st ident userData)) = sessions st"
    and "kanbanItems (snd (updateUser st ident userData)) = kanbanItems st"
    by (simp_all add: u)
  fix k assume "k \<noteq> ident"
  then show "map_get (users (snd (updateUser st ident userData))) k = map_get (users st) k"
    by (simp add: u map_get_set)
next
  fix session assume "map_get (sessions st) ident = Some session"
  note u = updateSessionStatus_present [OF this, of status]
  show "\<exists>updated. fst (updateSessionStatus st ident status) = Some updated
         \<and> session_status_set session status updated
         \<and> map_get (sessions (snd (updateSessionStatus st ident status))) ident = Some updated"
    by (simp add: u session_status_set_def map_get_set)
  show "users (snd (updateSessionStatus st ident status)) = users st"
    and "kanbanItems (snd (updateSessionStatus st ident status)) = kanbanItems st"
    by (simp_all add: u)
  fix k assume "k \<noteq> ident"
  then show "map_get (sessions (snd (updateSessionStatus st ident status))) k
            = map_get (sessions st) k"
    by (simp add: u map_get_set)
next
  fix item assume "map_get (kanbanItems st) ident = Some item"
  note u = updateKanbanItem_present [OF this, of itemData]
  show "\<exists>updated. fst (updateKanbanItem st ident itemData) = Some updated
         \<and> item_merged item itemData updated
         \<and> map_get (kanbanItems (snd (updateKanbanItem st ident itemData))) ident = Some updated"
    by (simp add: u item_merged_merge_item map_get_set)
  show "users (snd (updateKanbanItem st ident itemData)) = users st"
    and "sessions (snd (updateKanbanItem st ident itemData)) = sessions st"
    by (simp_all add: u)
  fix k assume "k \<noteq> ident"
  then show "map_get (kanbanItems (snd (updateKanbanItem st ident itemData))) k
            = map_get (kanbanItems st) k"
    by (simp add: u map_get_set)
qed

theorem update_shallow_merge_frame_witness:
  "map_get (users example_storage) ''mentor1'' = Some example_mentor1
   \<and> fst (updateUser example_storage ''mentor1''
            (empty_userData\<lparr>userData_hourlyRate := Some (Some 95), userData_bio := Some None\<rparr>))
       = Some (example_mentor1\<lparr>user_bio := None, user_hourlyRate := Some 95\<rparr>)
   \<and> map_get (users (snd (updateUser example_storage ''mentor1''
            (empty_userData\<lparr>userData_hourlyRate := Some (Some 95), userData_bio := Some None\<rparr>))))
         ''mentor2'' = Some example_mentor2
   \<and> fst (updateSessionStatus example_storage ''session3'' ''confirmed'')
       = Some (example_session ''session3'' ''mentor1'' 3000 30 ''confirmed'')
   \<and> fst (updateKanbanItem example_storage ''kanban1''
            (empty_itemData\<lparr>itemData_points := Some (Some 0)\<rparr>))
       = Some ((example_item ''kanban1'' ''Formulario de cadastro'')\<lparr>item_points := Some 0\<rparr>)"
  using update_shallow_merge_frame [of example_storage "''mentor1''"
      "empty_userData\<lparr>userData_hourlyRate := Some (Some 95), userData_bio := Some None\<rparr>"
      "''confirmed''" empty_itemData]
    update_shallow_merge_frame [of example_storage "''session3''" empty_userData "''confirmed''"
      empty_itemData]
    update_shallow_merge_frame [of example_storage "''kanban1''" empty_userData "''confirmed''"
      "empty_itemData\<lparr>itemData_points := Some (Some 0)\<rparr>"]
  by (simp add: example_storage_def map_get_def map_set_def updateUser_def updateSessionStatus_def
      updateKanbanItem_def merge_user_def merge_item_def empty_userData_def empty_itemData_def
      example_mentor1_def example_item_def example_session_def Let_def)

subsection \<open>Deleting a kanban item\<close>

text \<open>
  C7. \<^verbatim>\<open>deleteKanbanItem(id)\<close> returns true exactly when an item was stored under
  \<open>ident\<close>; afterwards no item is stored under \<open>ident\<close>, every other id holds what it held,
  and a second delete of the same id returns false.
\<close>

theorem deleteKanbanItem_true_iff_existed:
  "(fst (deleteKanbanItem st ident) \<longleftrightarrow> map_get (kanbanItems st) ident \<noteq> None)
   \<and> map_get (kanbanItems (snd (deleteKanbanItem st ident))) ident = None
   \<and> (\<forall>k. k \<noteq> ident \<longrightarrow>
         map_get (kanbanItems (snd (deleteKanbanItem st ident))) k = map_get (kanbanItems st) k)
   \<and> fst (deleteKanbanItem (snd (deleteKanbanItem st ident)) ident) = False"
  by (simp add: deleteKanbanItem_def map_delete_def map_get_def delete_conv' split: prod.splits)

theorem deleteKanbanItem_true_iff_existed_witness:
  "fst (deleteKanbanItem example_storage ''kanban1'')
   \<and> map_get (kanbanItems example_storage) ''kanban1'' \<noteq> None
   \<and> map_get (kanbanItems (snd (deleteKanbanItem example_storage ''kanban1''))) ''kanban1'' = None
   \<and> map_get (kanbanItems (snd (deleteKanbanItem example_storage ''kanban1''))) ''kanban2''
       = Some (example_item ''kanban2'' ''Landing page'')
   \<and> \<not> fst (deleteKanbanItem (snd (deleteKanbanItem example_storage ''kanban1'')) ''kanban1'')"
  using deleteKanbanItem_true_iff_existed [of example_storage "''kanban1''"]
  by (simp add: example_storage_def map_get_def)

subsection \<open>Upcoming sessions\<close>

text \<open>
  C2. \<^verbatim>\<open>getUpcomingSessions(userId)\<close>, called when the clock reads \<open>now\<close>, returns
  exactly the stored sessions in which the user is student or mentor, that are scheduled
  strictly after \<open>now\<close> and whose status is not \<^verbatim>\<open>cancelled\<close>: a session is in the
  result if and only if it is stored and meets the three conditions, the result has one
  entry per such key of the store, and nothing returned is cancelled or scheduled at or
  before \<open>now\<close>.
\<close>

theorem getUpcomingSessions_exact:
  assumes "map_ok (sessions st)"
  shows "(\<forall>s. s \<in> set (getUpcomingSessions st userId now) \<longleftrightarrow>
            (\<exists>k. map_get (sessions st) k = Some s)
            \<and> (session_studentId s = userId \<or> session_mentorId s = userId)
            \<and> now < session_scheduledAt s
            \<and> session_status s \<noteq> ''cancelled'')
       \<and> length (getUpcomingSessions st userId now)
           = card {k. \<exists>s. map_get (sessions st) k = Some s
                        \<and> (session_studentId s = userId \<or> session_mentorId s = userId)
                        \<and> now < session_scheduledAt s
                        \<and> session_status s \<noteq> ''cancelled''}
       \<and> (\<forall>s \<in> set (getUpcomingSessions st userId now).
            session_status s \<noteq> ''cancelled'' \<and> \<not> session_scheduledAt s \<le> now)"
proof (intro conjI)
  show "\<forall>s. s \<in> set (getUpcomingSessions st userId now) \<longleftrightarrow>
            (\<exists>k. map_get (sessions st) k = Some s)
            \<and> (session_studentId s = userId \<or> session_mentorId s = userId)
            \<and> now < session_scheduledAt s
            \<and> session_status s \<noteq> ''cancelled''"
    using map_values_iff_get [OF assms] by (auto simp: getUpcomingSessions_def)
  show "length (getUpcomingSessions st userId now)
           = card {k. \<exists>s. map_get (sessions st) k = Some s
                        \<and> (session_studentId s = userId \<or> session_mentorId s = userId)
                        \<and> now < session_scheduledAt s
                        \<and> session_status s \<noteq> ''cancelled''}"
    unfolding getUpcomingSessions_def by (rule length_filter_map_values [OF assms])
  show "\<forall>s \<in> set (getUpcomingSessions st userId now).
            session_status s \<noteq> ''cancelled'' \<and> \<not> session_scheduledAt s \<le> now"
    by (auto simp: getUpcomingSessions_def)
qed

theorem getUpcomingSessions_exact_witness:
  "map_ok (sessions example_storage_cancelled)
   \<and> getUpcomingSessions example_storage_cancelled ''student1'' 1500
       = [example_session ''session2'' ''mentor2'' 2000 90 ''confirmed'',
          example_session ''session3'' ''mentor1'' 3000 30 ''pending'']
   \<and> card {k. \<exists>s. map_get (sessions example_storage_cancelled) k = Some s
                 \<and> (session_studentId s = ''student1'' \<or> session_mentorId s = ''student1'')
                 \<and> 1500 < session_scheduledAt s
                 \<and> session_status s \<noteq> ''cancelled''} = 2"
proof -
  have ok: "map_ok (sessions example_storage_cancelled)"
    by (simp add: example_storage_cancelled_def map_ok_def)
  have run: "getUpcomingSessions example_storage_cancelled ''student1'' 1500
       = [example_session ''session2'' ''mentor2'' 2000 90 ''confirmed'',
          example_session ''session3'' ''mentor1'' 3000 30 ''pending'']"
    by (simp add: example_storage_cancelled_def getUpcomingSessions_def map_values_def
        example_session_def)
  from getUpcomingSessions_exact [OF ok, of "''student1''" 1500] run ok
  show ?thesis by simp
qed

subsection \<open>Dashboard statistics\<close>

lemma foldl_hours_exact:
  assumes "\<forall>s\<in>set cs. 15 dvd session_duration s"
    and "\<bar>acc\<bar> + (\<Sum>s\<leftarrow>cs. \<bar>of_int (session_duration s)\<bar> / 60) < 2 ^ 50"
    and "acc = of_int n / 4"
  shows "foldl (\<lambda>sum s. num_add sum (num_div (of_int (session_duration s)) 60)) acc cs
         = acc + hours_exact cs"
  using assms
proof (induction cs arbitrary: acc n)
  case Nil
  then show ?case by (simp add: hours_exact_def)
next
  case (Cons s cs)
  let ?h = "of_int (session_duration s) / 60 :: rat"
  let ?rest = "(\<Sum>s\<leftarrow>cs. \<bar>of_int (session_duration s)\<bar> / 60) :: rat"
  from Cons.prems(1) obtain m where m: "session_duration s = 15 * m" by (auto elim: dvdE)
  have h4: "?h = of_int m / 4" by (simp add: m)
  have rest0: "0 \<le> ?rest" by (rule sum_list_nonneg) auto
  have bound: "\<bar>acc\<bar> + \<bar>?h\<bar> + ?rest < 2 ^ 50"
    using Cons.prems(2) by (simp add: abs_divide)
  have "\<bar>?h\<bar> < 2 ^ 50" using bound rest0 by linarith
  with h4 have div: "num_div (of_int (session_duration s)) 60 = ?h"
    unfolding num_div_def by (rule to_double_exact)
  have sum4: "acc + ?h = of_int (n + m) / 4"
    by (simp add: h4 Cons.prems(3) add_divide_distrib)
  have "\<bar>acc + ?h\<bar> < 2 ^ 50" using bound rest0 by linarith
  with sum4 have add: "num_add acc ?h = acc + ?h"
    unfolding num_add_def by (rule to_double_exact)
  have b2: "\<bar>acc + ?h\<bar> + ?rest < 2 ^ 50" using bound by linarith
  have d2: "\<forall>s\<in>set cs. 15 dvd session_duration s" using Cons.prems(1) by simp
  have "foldl (\<lambda>sum s. num_add sum (num_div (of_int (session_duration s)) 60)) (acc + ?h) cs
       = acc + ?h + hours_exact cs"
    using d2 b2 sum4 by (rule Cons.IH)
  then show ?case by (simp add: div add hours_exact_def)
qed

lemma sum_abs_durations:
  "(\<Sum>s\<leftarrow>cs. \<bar>of_int (session_duration s)\<bar> / 60 :: rat)
     = of_int (\<Sum>s\<leftarrow>cs. \<bar>session_duration s\<bar>) / 60"
  by (induction cs) (simp_all add: add_divide_distrib)

lemma double_hours_exact:
  assumes "\<forall>s\<in>set cs. 15 dvd session_duration s"
    and "(\<Sum>s\<leftarrow>cs. \<bar>session_duration s\<bar>) < 60 * 2 ^ 50"
  shows "double_hours cs = hours_exact cs"
proof -
  from assms(2) have "(of_int (\<Sum>s\<leftarrow>cs. \<bar>session_duration s\<bar>) :: rat) < of_int (60 * 2 ^ 50)"
    by (simp only: of_int_less_iff)
  then have "(\<Sum>s\<leftarrow>cs. \<bar>of_int (session_duration s)\<bar> / 60 :: rat) < 2 ^ 50"
    by (simp add: sum_abs_durations)
  then have "\<bar>0::rat\<bar> + (\<Sum>s\<leftarrow>cs. \<bar>of_int (session_duration s)\<bar> / 60) < 2 ^ 50" by simp
  from foldl_hours_exact [OF assms(1) this, of 0] show ?thesis
    by (simp add: double_hours_def)
qed

lemma dashboardStats_fields:
  "scheduledSessions (dashboardStats st userId now) = length (getUpcomingSessions st userId now)"
  "connectedMentors (dashboardStats st userId now)
     = card (session_mentorId ` set (getUserSessions st userId))"
  "mentoringHours (dashboardStats st userId now)
     = Math_round (double_hours (completed_sessions st userId))"
  by (simp_all add: dashboardStats_def Let_def length_remdups_card_conv double_hours_def
      completed_sessions_def)

lemma set_getUserSessions:
  assumes "map_ok (sessions st)"
  shows "set (getUserSessions st userId)
       = {s. (\<exists>k. map_get (sessions st) k = Some s)
             \<and> (session_studentId s = userId \<or> session_mentorId s = userId)}"
  using map_values_iff_get [OF assms] by (auto simp: getUserSessions_def)

lemma connectedMentors_card:
  assumes "map_ok (sessions st)"
  shows "connectedMentors (dashboardStats st userId now)
       = card {m. \<exists>k s. map_get (sessions st) k = Some s
                    \<and> (session_studentId s = userId \<or> session_mentorId s = userId)
                    \<and> session_mentorId s = m}"
proof -
  have "session_mentorId ` set (getUserSessions st userId)
      = {m. \<exists>k s. map_get (sessions st) k = Some s
                    \<and> (session_studentId s = userId \<or> session_mentorId s = userId)
                    \<and> session_mentorId s = m}"
    unfolding set_getUserSessions [OF assms] by auto
  then show ?thesis by (simp add: dashboardStats_fields)
qed

lemma double_hours_example:
  assumes "session_duration s1 = 60" and "session_duration s2 = 90"
  shows "Math_round (double_hours [s1, s2]) = 3"
proof -
  have "\<forall>s\<in>set [s1, s2]. 15 dvd session_duration s" using assms by simp
  moreover have "(\<Sum>s\<leftarrow>[s1, s2]. \<bar>session_duration s\<bar>) < 60 * 2 ^ 50" using assms by simp
  ultimately have "double_hours [s1, s2] = hours_exact [s1, s2]" by (rule double_hours_exact)
  also have "\<dots> = 5 / 2" using assms by (simp add: hours_exact_def)
  finally have e: "double_hours [s1, s2] = 5 / 2" .
  show ?thesis unfolding Math_round_def e by simp
qed

lemma foldl_hours_error:
  fixes A :: rat
  assumes "\<bar>acc\<bar> + (\<Sum>s\<leftarrow>cs. \<bar>of_int (session_duration s)\<bar> / 60) \<le> A"
    and "\<bar>acc' - acc\<bar> \<le> 4 * of_nat k * (A / 2 ^ 53)"
    and "4 * of_nat (k + length cs) \<le> (2 ^ 53 :: rat)"
  shows "\<bar>foldl (\<lambda>sum s. num_add sum (num_div (of_int (session_duration s)) 60)) acc' cs
           - (acc + hours_exact cs)\<bar>
         \<le> 4 * of_nat (k + length cs) * (A / 2 ^ 53)"
  using assms
proof (induction cs arbitrary: acc acc' k)
  case Nil
  then show ?case by (simp add: hours_exact_def)
next
  case (Cons s cs)
  define c where "c = A / 2 ^ 53"
  define h :: rat where "h = of_int (session_duration s) / 60"
  define h' where "h' = num_div (of_int (session_duration s)) 60"
  define t where "t = acc' + h'"
  define s1 where "s1 = num_add acc' h'"
  let ?rest = "(\<Sum>s\<leftarrow>cs. \<bar>of_int (session_duration s)\<bar> / 60) :: rat"
  have rest0: "0 \<le> ?rest" by (rule sum_list_nonneg) auto
  have sum: "\<bar>acc\<bar> + \<bar>h\<bar> + ?rest \<le> A"
    using Cons.prems(1) by (simp add: h_def abs_divide)
  then have A0: "0 \<le> A" and hA: "\<bar>h\<bar> \<le> A" and accA: "\<bar>acc + h\<bar> \<le> A"
    using rest0 by linarith+
  have c0: "0 \<le> c" and cA: "c \<le> A"
    using A0 by (simp_all add: c_def divide_le_eq)
  have k4: "4 * of_nat k \<le> (2 ^ 53 :: rat)"
    using Cons.prems(3) by simp
  have "4 * of_nat k * c \<le> 2 ^ 53 * c"
    using k4 c0 by (rule mult_right_mono)
  then have kA: "4 * of_nat k * c \<le> A" by (simp add: c_def)
  have E0: "\<bar>acc' - acc\<bar> \<le> 4 * of_nat k * c"
    using Cons.prems(2) by (simp add: c_def)
  have "\<bar>h' - h\<bar> \<le> \<bar>h\<bar> / 2 ^ 53"
    unfolding h'_def h_def num_div_def by (rule to_double_error)
  also have "\<dots> \<le> c" using hA by (simp add: c_def divide_right_mono)
  finally have eh: "\<bar>h' - h\<bar> \<le> c" .
  have et: "\<bar>t - (acc + h)\<bar> \<le> 4 * of_nat k * c + c"
    using E0 eh unfolding t_def by linarith
  have "\<bar>t\<bar> \<le> 3 * A" using et accA kA cA by linarith
  then have "\<bar>t\<bar> / 2 ^ 53 \<le> 3 * A / 2 ^ 53" by (simp add: divide_right_mono)
  moreover have "\<bar>s1 - t\<bar> \<le> \<bar>t\<bar> / 2 ^ 53"
    unfolding s1_def t_def num_add_def by (rule to_double_error)
  ultimately have es: "\<bar>s1 - t\<bar> \<le> 3 * c" by (simp add: c_def)
  have "\<bar>s1 - (acc + h)\<bar> \<le> 4 * of_nat k * c + 4 * c"
    using es et by linarith
  then have e1: "\<bar>s1 - (acc + h)\<bar> \<le> 4 * of_nat (Suc k) * (A / 2 ^ 53)"
    by (simp add: c_def algebra_simps)
  have p1: "\<bar>acc + h\<bar> + ?rest \<le> A" using sum by linarith
  have p3: "4 * of_nat (Suc k + length cs) \<le> (2 ^ 53 :: rat)"
    using Cons.prems(3) by simp
  have "\<bar>foldl (\<lambda>sum s. num_add sum (num_div (of_int (session_duration s)) 60)) s1 cs
           - (acc + h + hours_exact cs)\<bar>
         \<le> 4 * of_nat (Suc k + length cs) * (A / 2 ^ 53)"
    using p1 e1 p3 by (rule Cons.IH)
  then show ?case
    by (simp add: s1_def h'_def h_def hours_exact_def add.assoc)
qed

lemma double_hours_error:
  assumes "int (length cs) * (1 + (\<Sum>s\<leftarrow>cs. \<bar>session_duration s\<bar>)) < 2 ^ 51"
  shows "\<bar>double_hours cs - hours_exact cs\<bar> < 1 / 60"
proof -
  define D where "D = (\<Sum>s\<leftarrow>cs. \<bar>session_duration s\<bar>)"
  define N where "N = int (length cs)"
  define A :: rat where "A = of_int D / 60"
  have D0: "0 \<le> D" unfolding D_def by (rule sum_list_nonneg) auto
  have N0: "0 \<le> N" by (simp add: N_def)
  have ND0: "0 \<le> N * D" using N0 D0 by simp
  have "N + N * D < 2 ^ 51" using assms by (simp add: N_def D_def algebra_simps)
  with ND0 N0 have N: "N < 2 ^ 51" and ND: "N * D < 2 ^ 51" by linarith+
  have a1: "\<bar>0::rat\<bar> + (\<Sum>s\<leftarrow>cs. \<bar>of_int (session_duration s)\<bar> / 60) \<le> A"
    by (simp add: sum_abs_durations A_def D_def)
  have a2: "\<bar>(0::rat) - 0\<bar> \<le> 4 * of_nat 0 * (A / 2 ^ 53)" by simp
  have "(of_int (4 * N) :: rat) \<le> of_int (2 ^ 53)"
    using N by (simp only: of_int_le_iff) simp
  then have a3: "4 * of_nat (0 + length cs) \<le> (2 ^ 53 :: rat)" by (simp add: N_def)
  from foldl_hours_error [OF a1 a2 a3]
  have "\<bar>double_hours cs - hours_exact cs\<bar> \<le> 4 * of_nat (length cs) * (A / 2 ^ 53)"
    by (simp add: double_hours_def)
  also have "\<dots> = of_int (4 * (N * D)) / (60 * 2 ^ 53)"
    by (simp add: A_def N_def)
  also have "\<dots> < 1 / 60"
  proof -
    have "(of_int (4 * (N * D)) :: rat) < of_int (2 ^ 53)"
      using ND by (simp only: of_int_less_iff) (simp add: mult.commute)
    then show ?thesis by (simp add: divide_simps)
  qed
  finally show ?thesis .
qed

lemma Math_round_near:
  assumes "\<bar>x - of_int m / 60\<bar> < 1 / 60"
  shows "\<bar>of_int (Math_round x) - of_int m / 60\<bar> \<le> (1 / 2 :: rat)"
    and "\<not> 60 dvd (m - 30) \<Longrightarrow> Math_round x = round (of_int m / 60 :: rat)"
proof -
  define k where "k = (m + 30) div 60"
  define r where "r = (m + 30) mod 60"
  have r: "0 \<le> r" "r < 60" by (simp_all add: r_def)
  have "m + 30 = 60 * k + r" by (simp add: k_def r_def)
  then have "(of_int (m + 30) :: rat) = of_int (60 * k + r)" by simp
  then have S: "(of_int m / 60 :: rat) + 1 / 2 = of_int k + of_int r / 60" by simp
  have "r \<le> 59" using r by simp
  then have "(of_int r :: rat) \<le> of_int 59" by (simp only: of_int_le_iff)
  then have r': "(0::rat) \<le> of_int r" "(of_int r :: rat) \<le> 59" using r by simp_all
  have lo: "of_int k + of_int r / 60 - 1 / 60 < x + 1 / 2"
    and hi: "x + 1 / 2 < of_int k + of_int r / 60 + 1 / 60"
    using assms S by linarith+
  have tie: "60 dvd (m - 30) \<longleftrightarrow> r = 0"
  proof -
    have "60 dvd (m + 30) \<longleftrightarrow> 60 dvd (m - 30)" by presburger
    then show ?thesis by (simp add: r_def dvd_eq_mod_eq_0)
  qed
  show "\<bar>of_int (Math_round x) - of_int m / 60\<bar> \<le> (1 / 2 :: rat)"
  proof (cases "r = 0")
    case True
    have "of_int (k - 1) \<le> x + 1 / 2" using lo True by simp
    then have a: "k - 1 \<le> \<lfloor>x + 1 / 2\<rfloor>" by (simp only: le_floor_iff)
    have "x + 1 / 2 < of_int (k + 1)" using hi True by simp
    then have b: "\<lfloor>x + 1 / 2\<rfloor> < k + 1" by (simp only: floor_less_iff)
    from a b have "\<lfloor>x + 1 / 2\<rfloor> = k - 1 \<or> \<lfloor>x + 1 / 2\<rfloor> = k" by linarith
    then show ?thesis using S True by (auto simp: Math_round_def)
  next
    case False
    with r have "1 \<le> r" by simp
    then have r1: "(1::rat) \<le> of_int r" by simp
    have "of_int k \<le> x + 1 / 2" and "x + 1 / 2 < of_int k + 1"
      using lo hi r1 r' by linarith+
    then have fk: "\<lfloor>x + 1 / 2\<rfloor> = k" by (simp add: floor_eq_iff)
    have "\<bar>of_int k - of_int m / 60\<bar> \<le> (1 / 2 :: rat)" using S r' by linarith
    then show ?thesis by (simp only: Math_round_def fk)
  qed
  show "Math_round x = round (of_int m / 60 :: rat)" if "\<not> 60 dvd (m - 30)"
  proof -
    from that tie r have "1 \<le> r" by simp
    then have r1: "(1::rat) \<le> of_int r" by simp
    have "of_int k \<le> x + 1 / 2" and "x + 1 / 2 < of_int k + 1"
      using lo hi r1 r' by linarith+
    then have 1: "\<lfloor>x + 1 / 2\<rfloor> = k" by (simp add: floor_eq_iff)
    have "of_int k \<le> (of_int m / 60 :: rat) + 1 / 2"
      and "(of_int m / 60 :: rat) + 1 / 2 < of_int k + 1"
      using S r' by linarith+
    then have 2: "\<lfloor>(of_int m / 60 :: rat) + 1 / 2\<rfloor> = k" by (simp add: floor_eq_iff)
    from 1 2 show ?thesis by (simp add: Math_round_def round_def)
  qed
qed

lemma hours_exact_sixtieths: "hours_exact cs = of_int (\<Sum>s\<leftarrow>cs. session_duration s) / 60"
  unfolding hours_exact_def by (induction cs) (simp_all add: add_divide_distrib)

text \<open>
  C1, as amended. For every user id, clock reading and storage:
  \<^verbatim>\<open>scheduledSessions\<close> is the number of the user's upcoming sessions (the user is
  student or mentor, the session is scheduled strictly after \<open>now\<close>, its status is not
  \<^verbatim>\<open>cancelled\<close>); \<^verbatim>\<open>connectedMentors\<close> is the number of distinct mentor ids over
  the sessions in which the user is student or mentor; \<^verbatim>\<open>mentoringHours\<close> is
  \<^verbatim>\<open>Math.round\<close> of the sum of \<^verbatim>\<open>duration / 60\<close> over the user's completed
  sessions, each quotient and each partial sum rounded to a double. As long as the number
  of completed sessions times one plus their total minutes stays below \<open>2 ^ 51\<close>, that
  is an integer nearest to the exact sum: the exact sum rounded to the nearest integer
  unless the exact sum lies halfway between two integers, where it is one of the two.
  It is the exact sum rounded to the nearest integer, a tie going up, whenever every
  completed duration is a multiple of 15 minutes (and the durations total less than
  \<open>60 * 2 ^ 50\<close> minutes). For a user whose sessions are 60 minutes completed with
  mentor A, 90 minutes completed with mentor B and 30 minutes pending with mentor A,
  \<^verbatim>\<open>connectedMentors\<close> is 2 and \<^verbatim>\<open>mentoringHours\<close> is 3.
\<close>

theorem dashboardStats_counts_and_hours:
  assumes "map_ok (sessions st)"
  shows "scheduledSessions (dashboardStats st userId now)
       = card {k. \<exists>s. map_get (sessions st) k = Some s
                    \<and> (session_studentId s = userId \<or> session_mentorId s = userId)
                    \<and> now < session_scheduledAt s
                    \<and> session_status s \<noteq> ''cancelled''}
     \<and> connectedMentors (dashboardStats st userId now)
       = card {m. \<exists>k s. map_get (sessions st) k = Some s
                    \<and> (session_studentId s = userId \<or> session_mentorId s = userId)
                    \<and> session_mentorId s = m}
     \<and> mentoringHours (dashboardStats st userId now)
       = Math_round (double_hours (completed_sessions st userId))
     \<and> (int (length (completed_sessions st userId))
            * (1 + (\<Sum>s\<leftarrow>completed_sessions st userId. \<bar>session_duration s\<bar>)) < 2 ^ 51
        \<longrightarrow> \<bar>of_int (mentoringHours (dashboardStats st userId now))
               - hours_exact (completed_sessions st userId)\<bar> \<le> 1 / 2
            \<and> (\<not> 60 dvd ((\<Sum>s\<leftarrow>completed_sessions st userId. session_duration s) - 30)
                 \<longrightarrow> mentoringHours (dashboardStats st userId now)
                     = mentoringHours_spec st userId))
     \<and> ((\<forall>s\<in>set (completed_sessions st userId). 15 dvd session_duration s)
          \<and> (\<Sum>s\<leftarrow>completed_sessions st userId. \<bar>session_duration s\<bar>) < 60 * 2 ^ 50
        \<longrightarrow> mentoringHours (dashboardStats st userId now) = mentoringHours_spec st userId)
     \<and> (\<forall>s1 s2 s3.
           getUserSessions st userId = [s1, s2, s3]
           \<and> session_mentorId s2 \<noteq> session_mentorId s1
           \<and> session_mentorId s3 = session_mentorId s1
           \<and> session_duration s1 = 60 \<and> session_status s1 = ''completed''
           \<and> session_duration s2 = 90 \<and> session_status s2 = ''completed''
           \<and> session_duration s3 = 30 \<and> session_status s3 = ''pending''
        \<longrightarrow> connectedMentors (dashboardStats st userId now) = 2
            \<and> mentoringHours (dashboardStats st userId now) = 3)"
proof (intro conjI allI impI)
  show "scheduledSessions (dashboardStats st userId now)
       = card {k. \<exists>s. map_get (sessions st) k = Some s
                    \<and> (session_studentId s = userId \<or> session_mentorId s = userId)
                    \<and> now < session_scheduledAt s
                    \<and> session_status s \<noteq> ''cancelled''}"
    unfolding dashboardStats_fields getUpcomingSessions_def
    by (rule length_filter_map_values [OF assms])
  show "connectedMentors (dashboardStats st userId now)
       = card {m. \<exists>k s. map_get (sessions st) k = Some s
                    \<and> (session_studentId s = userId \<or> session_mentorId s = userId)
                    \<and> session_mentorId s = m}"
    using assms by (rule connectedMentors_card)
  show "mentoringHours (dashboardStats st userId now)
       = Math_round (double_hours (completed_sessions st userId))"
    by (rule dashboardStats_fields)
next
  let ?cs = "completed_sessions st userId"
  assume "int (length ?cs) * (1 + (\<Sum>s\<leftarrow>?cs. \<bar>session_duration s\<bar>)) < 2 ^ 51"
  then have "\<bar>double_hours ?cs - hours_exact ?cs\<bar> < 1 / 60"
    by (rule double_hours_error)
  then have near: "\<bar>double_hours ?cs - of_int (\<Sum>s\<leftarrow>?cs. session_duration s) / 60\<bar> < 1 / 60"
    by (simp only: hours_exact_sixtieths)
  show "\<bar>of_int (mentoringHours (dashboardStats st userId now)) - hours_exact ?cs\<bar> \<le> 1 / 2"
    using Math_round_near(1) [OF near]
    by (simp only: dashboardStats_fields hours_exact_sixtieths)
  show "mentoringHours (dashboardStats st userId now) = mentoringHours_spec st userId"
    if "\<not> 60 dvd ((\<Sum>s\<leftarrow>?cs. session_duration s) - 30)"
    using Math_round_near(2) [OF near that]
    by (simp only: dashboardStats_fields mentoringHours_spec_def hours_exact_sixtieths)
next
  assume "(\<forall>s\<in>set (completed_sessions st userId). 15 dvd session_duration s)
          \<and> (\<Sum>s\<leftarrow>completed_sessions st userId. \<bar>session_duration s\<bar>) < 60 * 2 ^ 50"
  then have "double_hours (completed_sessions st userId)
      = hours_exact (completed_sessions st userId)"
    by (intro double_hours_exact) simp_all
  then show "mentoringHours (dashboardStats st userId now) = mentoringHours_spec st userId"
    by (simp add: dashboardStats_fields mentoringHours_spec_def Math_round_def round_def)
next
  fix s1 s2 s3
  assume a: "getUserSessions st userId = [s1, s2, s3]
           \<and> session_mentorId s2 \<noteq> session_mentorId s1
           \<and> session_mentorId s3 = session_mentorId s1
           \<and> session_duration s1 = 60 \<and> session_status s1 = ''completed''
           \<and> session_duration s2 = 90 \<and> session_status s2 = ''completed''
           \<and> session_duration s3 = 30 \<and> session_status s3 = ''pending''"
  then have "session_mentorId ` set (getUserSessions st userId)
      = {session_mentorId s1, session_mentorId s2}"
    by auto
  moreover from a have "session_mentorId s1 \<noteq> session_mentorId s2" by auto
  ultimately show "connectedMentors (dashboardStats st userId now) = 2"
    by (simp add: dashboardStats_fields)
  from a have "completed_sessions st userId = [s1, s2]"
    by (simp add: completed_sessions_def)
  with a show "mentoringHours (dashboardStats st userId now) = 3"
    by (simp add: dashboardStats_fields double_hours_example)
qed

theorem dashboardStats_counts_and_hours_witness:
  "map_ok (sessions example_storage)
   \<and> scheduledSessions (dashboardStats example_storage ''student1'' 2500) = 1
   \<and> card {k. \<exists>s. map_get (sessions example_storage) k = Some s
                 \<and> (session_studentId s = ''student1'' \<or> session_mentorId s = ''student1'')
                 \<and> 2500 < session_scheduledAt s
                 \<and> session_status s \<noteq> ''cancelled''} = 1
   \<and> connectedMentors (dashboardStats example_storage ''student1'' 2500) = 2
   \<and> mentoringHours (dashboardStats example_storage ''student1'' 2500) = 3
   \<and> mentoringHours_spec example_storage ''student1'' = 3
   \<and> map_ok (sessions example_storage_cancelled)
   \<and> \<not> 60 dvd ((\<Sum>s\<leftarrow>completed_sessions example_storage_cancelled ''student1''.
                    session_duration s) - 30)
   \<and> mentoringHours (dashboardStats example_storage_cancelled ''student1'' 2500)
       = mentoringHours_spec example_storage_cancelled ''student1''
   \<and> mentoringHours_spec example_storage_cancelled ''student1'' = 1"
proof -
  have ok: "map_ok (sessions example_storage)"
    by (simp add: example_storage_def map_ok_def)
  have all: "getUserSessions example_storage ''student1''
      = [example_session ''session1'' ''mentor1'' 1000 60 ''completed'',
         example_session ''session2'' ''mentor2'' 2000 90 ''completed'',
         example_session ''session3'' ''mentor1'' 3000 30 ''pending'']"
    by (simp add: getUserSessions_def example_storage_def map_values_def example_session_def)
  have up: "length (getUpcomingSessions example_storage ''student1'' 2500) = 1"
    by (simp add: getUpcomingSessions_def example_storage_def map_values_def example_session_def)
  have compl: "completed_sessions example_storage ''student1''
      = [example_session ''session1'' ''mentor1'' 1000 60 ''completed'',
         example_session ''session2'' ''mentor2'' 2000 90 ''completed'']"
    by (simp add: completed_sessions_def all) (simp add: example_session_def)
  have hyp: "(\<forall>s\<in>set (completed_sessions example_storage ''student1''). 15 dvd session_duration s)
      \<and> (\<Sum>s\<leftarrow>completed_sessions example_storage ''student1''. \<bar>session_duration s\<bar>) < 60 * 2 ^ 50"
    by (simp add: compl) (simp add: example_session_def)
  note inst = dashboardStats_counts_and_hours [OF ok, of "''student1''" 2500]
  from inst have sched: "scheduledSessions (dashboardStats example_storage ''student1'' 2500)
       = card {k. \<exists>s. map_get (sessions example_storage) k = Some s
                 \<and> (session_studentId s = ''student1'' \<or> session_mentorId s = ''student1'')
                 \<and> 2500 < session_scheduledAt s
                 \<and> session_status s \<noteq> ''cancelled''}"
    by (rule conjunct1)
  from inst hyp have spec: "mentoringHours (dashboardStats example_storage ''student1'' 2500)
      = mentoringHours_spec example_storage ''student1''"
    by blast
  from inst all have ex: "connectedMentors (dashboardStats example_storage ''student1'' 2500) = 2
      \<and> mentoringHours (dashboardStats example_storage ''student1'' 2500) = 3"
    by (simp add: example_session_def)
  have one: "scheduledSessions (dashboardStats example_storage ''student1'' 2500) = 1"
    by (simp add: dashboardStats_fields up)
  have ok2: "map_ok (sessions example_storage_cancelled)"
    by (simp add: example_storage_cancelled_def map_ok_def)
  have compl2: "completed_sessions example_storage_cancelled ''student1''
      = [example_session ''session1'' ''mentor1'' 1000 60 ''completed'']"
    by (simp add: completed_sessions_def getUserSessions_def example_storage_cancelled_def
        map_values_def example_session_def)
  have small: "int (length (completed_sessions example_storage_cancelled ''student1''))
      * (1 + (\<Sum>s\<leftarrow>completed_sessions example_storage_cancelled ''student1''.
                 \<bar>session_duration s\<bar>)) < 2 ^ 51"
    by (simp add: compl2) (simp add: example_session_def)
  have notie: "\<not> 60 dvd ((\<Sum>s\<leftarrow>completed_sessions example_storage_cancelled ''student1''.
                    session_duration s) - 30)"
    by (simp add: compl2) (simp add: example_session_def)
  from dashboardStats_counts_and_hours [OF ok2, of "''student1''" 2500] small notie
  have spec2: "mentoringHours (dashboardStats example_storage_cancelled ''student1'' 2500)
       = mentoringHours_spec example_storage_cancelled ''student1''"
    by blast
  have val2: "mentoringHours_spec example_storage_cancelled ''student1'' = 1"
    by (simp add: mentoringHours_spec_def compl2 hours_exact_def round_def)
      (simp add: example_session_def floor_eq_iff)
  from ok sched spec ex one ok2 notie spec2 val2 show ?thesis by simp
qed

text \<open>
  C1 as it was stated can fail when a completed duration is not a multiple of 15
  minutes: with completed sessions of 30, 40 and 20 minutes the exact sum is 1.5 hours,
  which rounds to 2, while the doubles add up to 1.4999999999999998 and the handler
  answers 1.
\<close>

theorem dashboard_mentoringHours_counterexample:
  "mentoringHours (dashboardStats example_storage_thirds ''student1'' 0) = 1
   \<and> mentoringHours_spec example_storage_thirds ''student1'' = 2"
proof -
  have compl: "completed_sessions example_storage_thirds ''student1''
      = [example_session ''session1'' ''mentor1'' 1000 30 ''completed'',
         example_session ''session2'' ''mentor2'' 2000 40 ''completed'',
         example_session ''session3'' ''mentor1'' 3000 20 ''completed'']"
    by (simp add: completed_sessions_def getUserSessions_def example_storage_thirds_def
        map_values_def example_session_def)
  have sum: "Math_round (num_add (num_add (num_add 0 (num_div 30 60)) (num_div 40 60))
      (num_div 20 60)) = 1"
    by code_simp
  have "mentoringHours (dashboardStats example_storage_thirds ''student1'' 0) = 1"
    by (simp add: dashboardStats_fields compl double_hours_def example_session_def sum)
  moreover have "mentoringHours_spec example_storage_thirds ''student1'' = 2"
    by (simp add: mentoringHours_spec_def compl hours_exact_def example_session_def round_def)
  ultimately show ?thesis by simp
qed

end
